theory Spec2Isabelle
  imports Complex_Main "HOL-Library.Multiset"
begin

section \<open>Python values and exceptions\<close>

text \<open>
  The handlers of \<^verbatim>\<open>app.py\<close> work on untyped Python values: the result of
  \<^verbatim>\<open>request.get_json()\<close>, the attributes of the ORM objects and the values handed to
  \<^verbatim>\<open>jsonify\<close>. One datatype holds them all. A string is a list of characters, one
  per code point, with code points below 256 (among which the decimal digits are 0 to 9
  only); a dict is the list of its items, whose keys are distinct; a float is the real
  number it denotes (the non-finite ones are left out).
  \<^verbatim>\<open>PDate\<close> is a \<^verbatim>\<open>datetime.date\<close>; it never occurs in a request, only in
  an album read back from the store.
\<close>

record date =
  year :: nat
  month :: nat
  day :: nat

datatype pyval =
    PNone
  | PBool bool
  | PInt int
  | PFloat real
  | PStr string
  | PList "pyval list"
  | PDict "(string \<times> pyval) list"
  | PDate date

datatype exn_class =
    TypeError | ValueError | AttributeError
  | IntegrityError | DataError | OperationalError | ProgrammingError | ObjectDeletedError
  | UnsupportedMediaType | BadRequest

datatype exn = Exn exn_class string

fun str_exn :: "exn \<Rightarrow> string" where
  "str_exn (Exn c m) = m"

fun type_name :: "pyval \<Rightarrow> string" where
  "type_name PNone = ''NoneType''"
| "type_name (PBool b) = ''bool''"
| "type_name (PInt n) = ''int''"
| "type_name (PFloat r) = ''float''"
| "type_name (PStr s) = ''str''"
| "type_name (PList xs) = ''list''"
| "type_name (PDict kvs) = ''dict''"
| "type_name (PDate d) = ''datetime.date''"

text \<open>Truth value of a Python object, as \<^verbatim>\<open>if not data\<close> tests it.\<close>

fun truthy :: "pyval \<Rightarrow> bool" where
  "truthy PNone = False"
| "truthy (PBool b) = b"
| "truthy (PInt n) = (n \<noteq> 0)"
| "truthy (PFloat r) = (r \<noteq> 0)"
| "truthy (PStr s) = (s \<noteq> [])"
| "truthy (PList xs) = (xs \<noteq> [])"
| "truthy (PDict kvs) = (kvs \<noteq> [])"
| "truthy (PDate d) = True"

text \<open>\<^verbatim>\<open>len(x)\<close>: defined on strings, lists and dicts, a TypeError elsewhere.\<close>

fun py_len :: "pyval \<Rightarrow> exn + nat" where
  "py_len (PStr s) = Inr (length s)"
| "py_len (PList xs) = Inr (length xs)"
| "py_len (PDict kvs) = Inr (length kvs)"
| "py_len v = Inl (Exn TypeError (''object of type '' @ [CHR 39] @ type_name v @ [CHR 39] @ '' has no len()''))"

text \<open>
  \<^verbatim>\<open>data.get(key)\<close>: the value stored under the key or None on a dict; any other
  value has no method \<^verbatim>\<open>get\<close>.
\<close>

fun py_get :: "pyval \<Rightarrow> string \<Rightarrow> exn + pyval" where
  "py_get (PDict kvs) k = Inr (case map_of kvs k of None \<Rightarrow> PNone | Some v \<Rightarrow> v)"
| "py_get v k = Inl (Exn AttributeError
     ([CHR 39] @ type_name v @ [CHR 39] @ '' object has no attribute '' @ [CHR 39] @ ''get'' @ [CHR 39]))"

section \<open>Calendar dates and \<^verbatim>\<open>datetime.strptime\<close>\<close>

definition is_leap :: "nat \<Rightarrow> bool" where
  "is_leap y = (y mod 4 = 0 \<and> (y mod 100 \<noteq> 0 \<or> y mod 400 = 0))"

definition days_in_month :: "nat \<Rightarrow> nat \<Rightarrow> nat" where
  "days_in_month y m =
     (if m = 2 then (if is_leap y then 29 else 28)
      else if m = 4 \<or> m = 6 \<or> m = 9 \<or> m = 11 then 30 else 31)"

text \<open>
  The constructor \<^verbatim>\<open>datetime.date(y, m, d)\<close>: years 1 to 9999, a month of the year, a
  day of that month; a ValueError otherwise.
\<close>

definition valid_date :: "nat \<Rightarrow> nat \<Rightarrow> nat \<Rightarrow> bool" where
  "valid_date y m d =
     (1 \<le> y \<and> y \<le> 9999 \<and> 1 \<le> m \<and> m \<le> 12 \<and> 1 \<le> d \<and> d \<le> days_in_month y m)"

definition datetime_date :: "nat \<Rightarrow> nat \<Rightarrow> nat \<Rightarrow> exn + date" where
  "datetime_date y m d =
     (if valid_date y m d then Inr \<lparr>year = y, month = m, day = d\<rparr>
      else Inl (Exn ValueError ''date value out of range''))"

definition is_digit :: "char \<Rightarrow> bool" where
  "is_digit c = (c \<in> set ''0123456789'')"

definition digit_val :: "char \<Rightarrow> nat" where
  "digit_val c = of_char c - 48"

text \<open>\<^verbatim>\<open>int(s)\<close> on a string of decimal digits.\<close>

definition num :: "string \<Rightarrow> nat" where
  "num s = foldl (\<lambda>n c. 10 * n + digit_val c) 0 s"

text \<open>
  The regular expressions of the three directives \<^verbatim>\<open>_strptime\<close> needs here. Each
  returns its possible matches at the start of the string, in the order in which the
  regular expression tries them, as pairs of the value read and the rest of the string:
  \<^verbatim>\<open>%Y\<close> is \<^verbatim>\<open>\d\d\d\d\<close>, \<^verbatim>\<open>%m\<close> is \<^verbatim>\<open>1[0-2]|0[1-9]|[1-9]\<close> and
  \<^verbatim>\<open>%d\<close> is \<^verbatim>\<open>3[0-1]|[1-2]\d|0[1-9]|[1-9]| [1-9]\<close>.
\<close>

fun rx_Y :: "string \<Rightarrow> (nat \<times> string) list" where
  "rx_Y (a # b # c # d # r) =
     (if is_digit a \<and> is_digit b \<and> is_digit c \<and> is_digit d then [(num [a, b, c, d], r)] else [])"
| "rx_Y s = []"

definition rx2 :: "(char \<Rightarrow> bool) \<Rightarrow> (char \<Rightarrow> bool) \<Rightarrow> string \<Rightarrow> (nat \<times> string) list" where
  "rx2 p q s = (case s of a # b # r \<Rightarrow> (if p a \<and> q b then [(num [a, b], r)] else []) | _ \<Rightarrow> [])"

definition rx1 :: "(char \<Rightarrow> bool) \<Rightarrow> string \<Rightarrow> (nat \<times> string) list" where
  "rx1 p s = (case s of a # r \<Rightarrow> (if p a then [(num [a], r)] else []) | _ \<Rightarrow> [])"

definition nonzero_digit :: "char \<Rightarrow> bool" where
  "nonzero_digit c = (c \<in> set ''123456789'')"

definition rx_m :: "string \<Rightarrow> (nat \<times> string) list" where
  "rx_m s =
     rx2 (\<lambda>c. c = CHR ''1'') (\<lambda>c. c \<in> set ''012'') s
     @ rx2 (\<lambda>c. c = CHR ''0'') nonzero_digit s
     @ rx1 nonzero_digit s"

definition rx_space_digit :: "string \<Rightarrow> (nat \<times> string) list" where
  "rx_space_digit s =
     (case s of a # b # r \<Rightarrow> (if a = CHR '' '' \<and> nonzero_digit b then [(num [b], r)] else []) | _ \<Rightarrow> [])"

definition rx_d :: "string \<Rightarrow> (nat \<times> string) list" where
  "rx_d s =
     rx2 (\<lambda>c. c = CHR ''3'') (\<lambda>c. c \<in> set ''01'') s
     @ rx2 (\<lambda>c. c \<in> set ''12'') is_digit s
     @ rx2 (\<lambda>c. c = CHR ''0'') nonzero_digit s
     @ rx1 nonzero_digit s
     @ rx_space_digit s"

definition rx_lit :: "char \<Rightarrow> string \<Rightarrow> string list" where
  "rx_lit c s = (case s of a # r \<Rightarrow> (if a = c then [r] else []) | [] \<Rightarrow> [])"

text \<open>
  A format string compiles to a list of directives and literal characters. Only the
  directives that \<^verbatim>\<open>app.py\<close> uses are known; any other one is a bad directive.
\<close>

datatype directive = DirY | Dirm | Dird | Lit char

fun compile_format :: "string \<Rightarrow> exn + directive list" where
  "compile_format [] = Inr []"
| "compile_format [c] =
     (if c = CHR ''%'' then Inl (Exn ValueError ''stray % in format'') else Inr [Lit c])"
| "compile_format (c # x # r) =
     (if c = CHR ''%'' then
        (if x = CHR ''Y'' then map_sum id ((#) DirY) (compile_format r)
         else if x = CHR ''m'' then map_sum id ((#) Dirm) (compile_format r)
         else if x = CHR ''d'' then map_sum id ((#) Dird) (compile_format r)
         else Inl (Exn ValueError ''bad directive in format''))
      else map_sum id ((#) (Lit c)) (compile_format (x # r)))"

text \<open>
  Matching the compiled format from the start of the string, with backtracking: all the
  ways to match, in the order of the regular expression's alternatives, each with the
  fields read so far (year, month, day) and the unmatched rest.
\<close>

fun rx_format :: "directive list \<Rightarrow> nat \<times> nat \<times> nat \<Rightarrow> string \<Rightarrow> ((nat \<times> nat \<times> nat) \<times> string) list" where
  "rx_format [] f s = [(f, s)]"
| "rx_format (DirY # ds) (y, m, d) s = concat (map (\<lambda>(v, r). rx_format ds (v, m, d) r) (rx_Y s))"
| "rx_format (Dirm # ds) (y, m, d) s = concat (map (\<lambda>(v, r). rx_format ds (y, v, d) r) (rx_m s))"
| "rx_format (Dird # ds) (y, m, d) s = concat (map (\<lambda>(v, r). rx_format ds (y, m, v) r) (rx_d s))"
| "rx_format (Lit c # ds) f s = concat (map (\<lambda>r. rx_format ds f r) (rx_lit c s))"

text \<open>
  \<^verbatim>\<open>datetime.strptime(data_string, format).date()\<close>. The first argument must be a
  string. The regular expression's first match decides: none is a ValueError, one that
  leaves characters unread is a ValueError (unconverted data remains), and the fields,
  with the defaults 1900, 1 and 1, must make a date. The time of day is always zero here
  and \<^verbatim>\<open>.date()\<close> drops it. The texts of the errors are shortened; they only reach
  the log.
\<close>

definition strptime :: "pyval \<Rightarrow> string \<Rightarrow> exn + date" where
  "strptime data_string format =
     (case data_string of
        PStr s \<Rightarrow>
          (case compile_format format of
             Inl e \<Rightarrow> Inl e
           | Inr ds \<Rightarrow>
               (case rx_format ds (1900, 1, 1) s of
                  [] \<Rightarrow> Inl (Exn ValueError ''time data does not match format'')
                | ((y, m, d), rest) # _ \<Rightarrow>
                    (if rest \<noteq> [] then Inl (Exn ValueError (''unconverted data remains: '' @ rest))
                     else datetime_date y m d)))
      | v \<Rightarrow> Inl (Exn TypeError (''strptime() argument 1 must be str, not '' @ type_name v)))"

section \<open>The date parser\<close>

text \<open>
  The body of the \<^verbatim>\<open>try\<close> block of \<^verbatim>\<open>parse_release_date\<close>: \<^verbatim>\<open>len\<close> and
  \<^verbatim>\<open>strptime\<close> may raise.
\<close>

definition parse_release_date_try :: "pyval \<Rightarrow> exn + date option" where
  "parse_release_date_try date_str =
     (case py_len date_str of
        Inl e \<Rightarrow> Inl e
      | Inr n \<Rightarrow>
          (if n = 4 then map_sum id Some (strptime date_str ''%Y'')
           else if n = 7 then map_sum id Some (strptime date_str ''%Y-%m'')
           else if n = 10 then map_sum id Some (strptime date_str ''%Y-%m-%d'')
           else Inr None))"

text \<open>
  \<^verbatim>\<open>parse_release_date\<close>: the \<^verbatim>\<open>except Exception\<close> clause logs the error and
  returns None. The result is a sum like that of every function that could raise.
\<close>

definition parse_release_date :: "pyval \<Rightarrow> exn + date option" where
  "parse_release_date date_str =
     (case parse_release_date_try date_str of
        Inl e \<Rightarrow> Inr None
      | Inr r \<Rightarrow> Inr r)"

section \<open>The models and the entity store\<close>

text \<open>
  The three classes \<^verbatim>\<open>Artist\<close>, \<^verbatim>\<open>Album\<close> and \<^verbatim>\<open>Track\<close> declare their tables:
  for each column its name, its type and its constraints. A primary key column is not
  nullable. The relationships (\<^verbatim>\<open>albums\<close>, \<^verbatim>\<open>tracks\<close>) are never read by a handler
  and are left out.
\<close>

datatype coltype = String | Integer | Boolean | Date

record column =
  col_name :: string
  col_type :: coltype
  primary_key :: bool
  nullable :: bool
  foreign_key :: "(string \<times> string) option"

definition Column :: "string \<Rightarrow> coltype \<Rightarrow> column" where
  "Column n t = \<lparr>col_name = n, col_type = t, primary_key = False, nullable = True, foreign_key = None\<rparr>"

record model_cls =
  tablename :: string
  columns :: "column list"

definition Artist :: model_cls where
  "Artist = \<lparr>tablename = ''artists'', columns =
     [(Column ''id'' String)\<lparr>primary_key := True, nullable := False\<rparr>,
      (Column ''name'' String)\<lparr>nullable := False\<rparr>,
      Column ''genres'' String,
      Column ''popularity'' Integer,
      Column ''followers'' Integer,
      Column ''uri'' String]\<rparr>"

definition Album :: model_cls where
  "Album = \<lparr>tablename = ''albums'', columns =
     [(Column ''id'' String)\<lparr>primary_key := True, nullable := False\<rparr>,
      (Column ''artist_id'' String)\<lparr>nullable := False, foreign_key := Some (''artists'', ''id'')\<rparr>,
      (Column ''name'' String)\<lparr>nullable := False\<rparr>,
      Column ''album_type'' String,
      Column ''release_date'' Date,
      Column ''release_date_precision'' String,
      Column ''total_tracks'' Integer,
      Column ''uri'' String]\<rparr>"

definition Track :: model_cls where
  "Track = \<lparr>tablename = ''tracks'', columns =
     [(Column ''id'' String)\<lparr>primary_key := True, nullable := False\<rparr>,
      (Column ''album_id'' String)\<lparr>nullable := False, foreign_key := Some (''albums'', ''id'')\<rparr>,
      (Column ''name'' String)\<lparr>nullable := False\<rparr>,
      Column ''track_number'' Integer,
      Column ''duration_ms'' Integer,
      Column ''explicit'' Boolean,
      Column ''uri'' String,
      Column ''is_local'' Boolean]\<rparr>"

text \<open>
  An object of a model class is the class with its attributes, as the keyword arguments
  of the constructor set them; a row of a table has the same shape. An attribute that
  was never set reads as None.
\<close>

type_synonym row = "(string \<times> pyval) list"

type_synonym obj = "model_cls \<times> row"

definition attr :: "row \<Rightarrow> string \<Rightarrow> pyval" where
  "attr r k = (case map_of r k of None \<Rightarrow> PNone | Some v \<Rightarrow> v)"

text \<open>
  The state of the store: the rows of each table, the objects that the session holds for
  the next commit, and the condition of the connection (\<^verbatim>\<open>fault\<close> is the text of the
  error that every statement meets while the engine cannot be reached, None while it can).

  The driver and the engine behind \<^verbatim>\<open>db.session\<close> are not part of \<^verbatim>\<open>app.py\<close>, and
  two things that they decide are parameters of the store. \<^verbatim>\<open>cast\<close> is what they make
  of a Python value bound for a column of a given type: the value that the column then
  holds (a string \<^verbatim>\<open>'90'\<close> bound for an integer column is stored as 90, an integer 5
  bound for a string column as \<^verbatim>\<open>'5'\<close>), or an error. \<^verbatim>\<open>scan\<close> is the order in which
  the engine returns the rows of a table to a query that asks for none. Each theorem names
  what it needs of them.
\<close>

record db =
  tables :: "string \<Rightarrow> row list"
  session :: "obj list"
  fault :: "string option"
  cast :: "coltype \<Rightarrow> pyval \<Rightarrow> exn + pyval"
  scan :: "row list \<Rightarrow> row list"

text \<open>
  An insert, from the constraints that the classes declare: the session needs a
  primary key that it can hash, every value must pass the cast of its column, a required
  field must not be null, the primary key must be new to the table and a foreign key must
  be the key of a row of the table it refers to. The texts of the errors are placeholders.
\<close>

fun hashable :: "pyval \<Rightarrow> bool" where
  "hashable (PList xs) = False"
| "hashable (PDict kvs) = False"
| "hashable v = True"

fun adapt_row :: "(coltype \<Rightarrow> pyval \<Rightarrow> exn + pyval) \<Rightarrow> column list \<Rightarrow> row \<Rightarrow> exn + row" where
  "adapt_row cv [] r = Inr []"
| "adapt_row cv (c # cs) r =
     (case cv (col_type c) (attr r (col_name c)) of
        Inl e \<Rightarrow> Inl e
      | Inr v \<Rightarrow> map_sum id ((#) (col_name c, v)) (adapt_row cv cs r))"

definition pk_of :: "model_cls \<Rightarrow> row \<Rightarrow> pyval list" where
  "pk_of mdl r = map (\<lambda>c. attr r (col_name c)) (filter primary_key (columns mdl))"

definition null_violation :: "row \<Rightarrow> column \<Rightarrow> bool" where
  "null_violation r c = ((primary_key c \<or> \<not> nullable c) \<and> attr r (col_name c) = PNone)"

definition fk_violation :: "(string \<Rightarrow> row list) \<Rightarrow> row \<Rightarrow> column \<Rightarrow> bool" where
  "fk_violation tabs r c =
     (case foreign_key c of
        None \<Rightarrow> False
      | Some (t, k) \<Rightarrow> attr r (col_name c) \<noteq> PNone \<and> attr r (col_name c) \<notin> set (map (\<lambda>p. attr p k) (tabs t)))"

definition insert_row ::
  "(coltype \<Rightarrow> pyval \<Rightarrow> exn + pyval) \<Rightarrow> (string \<Rightarrow> row list) \<Rightarrow> obj \<Rightarrow> exn + (string \<Rightarrow> row list)" where
  "insert_row cv tabs ob =
     (case ob of (mdl, r) \<Rightarrow>
        (if \<not> list_all hashable (pk_of mdl r) then Inl (Exn TypeError ''unhashable type'')
         else
           (case adapt_row cv (columns mdl) r of
              Inl e \<Rightarrow> Inl e
            | Inr vals \<Rightarrow>
                (case find (null_violation vals) (columns mdl) of
                   Some c \<Rightarrow> Inl (Exn IntegrityError (''null value in column '' @ col_name c))
                 | None \<Rightarrow>
                     (if pk_of mdl vals \<in> set (map (pk_of mdl) (tabs (tablename mdl)))
                      then Inl (Exn IntegrityError ''duplicate key value violates unique constraint'')
                      else (case find (fk_violation tabs vals) (columns mdl) of
                              Some c \<Rightarrow> Inl (Exn IntegrityError (''foreign key violation in column '' @ col_name c))
                            | None \<Rightarrow> Inr (tabs(tablename mdl := tabs (tablename mdl) @ [vals]))))))))"

fun flush ::
  "(coltype \<Rightarrow> pyval \<Rightarrow> exn + pyval) \<Rightarrow> (string \<Rightarrow> row list) \<Rightarrow> obj list \<Rightarrow> exn + (string \<Rightarrow> row list)" where
  "flush cv tabs [] = Inr tabs"
| "flush cv tabs (ob # obs) =
     (case insert_row cv tabs ob of
        Inl e \<Rightarrow> Inl e
      | Inr tabs' \<Rightarrow> flush cv tabs' obs)"

text \<open>\<^verbatim>\<open>db.session.add(obj)\<close>: the object waits in the session.\<close>

definition session_add :: "db \<Rightarrow> obj \<Rightarrow> db" where
  "session_add s ob = s\<lparr>session := session s @ [ob]\<rparr>"

text \<open>
  \<^verbatim>\<open>db.session.commit()\<close>: all the waiting objects are inserted in one transaction.
  When it raises, no table has changed and the objects still wait in the session.
\<close>

definition session_commit :: "db \<Rightarrow> (exn + unit) \<times> db" where
  "session_commit s =
     (case fault s of
        Some m \<Rightarrow> (Inl (Exn OperationalError m), s)
      | None \<Rightarrow>
          (case flush (cast s) (tables s) (session s) of
             Inl e \<Rightarrow> (Inl e, s)
           | Inr tabs' \<Rightarrow> (Inr (), s\<lparr>tables := tabs', session := []\<rparr>)))"

text \<open>\<^verbatim>\<open>db.session.rollback()\<close>: the session forgets what it held.\<close>

definition session_rollback :: "db \<Rightarrow> db" where
  "session_rollback s = s\<lparr>session := []\<rparr>"

text \<open>
  Reading an attribute of an object after the commit: the commit has expired the object,
  so the session selects its row again by the primary key that the object holds, the
  value that the constructor was given. The three primary keys are string columns: the
  engine compares one with a string, and raises for a parameter of another type.
\<close>

fun is_str :: "pyval \<Rightarrow> bool" where
  "is_str (PStr s) = True"
| "is_str v = False"

definition refresh :: "db \<Rightarrow> obj \<Rightarrow> exn + row" where
  "refresh s ob =
     (case ob of (mdl, r) \<Rightarrow>
        (case fault s of
           Some m \<Rightarrow> Inl (Exn OperationalError m)
         | None \<Rightarrow>
             (if \<not> list_all is_str (pk_of mdl r)
              then Inl (Exn ProgrammingError ''operator does not exist'')
              else (case find (\<lambda>x. pk_of mdl x = pk_of mdl r) (tables s (tablename mdl)) of
                      None \<Rightarrow> Inl (Exn ObjectDeletedError ''instance has been deleted'')
                    | Some x \<Rightarrow> Inr x))))"

text \<open>\<^verbatim>\<open>Model.query.get(id)\<close>: the row with that primary key, or None.\<close>

definition query_get :: "db \<Rightarrow> model_cls \<Rightarrow> string \<Rightarrow> exn + row option" where
  "query_get s mdl ident =
     (case fault s of
        Some m \<Rightarrow> Inl (Exn OperationalError m)
      | None \<Rightarrow> Inr (find (\<lambda>r. pk_of mdl r = [PStr ident]) (tables s (tablename mdl))))"

text \<open>\<^verbatim>\<open>Model.query.all()\<close>: the rows of the table, in the order of the engine's scan.\<close>

definition query_all :: "db \<Rightarrow> model_cls \<Rightarrow> exn + row list" where
  "query_all s mdl =
     (case fault s of
        Some m \<Rightarrow> Inl (Exn OperationalError m)
      | None \<Rightarrow> Inr (scan s (tables s (tablename mdl))))"

section \<open>Serialisation\<close>

definition Artist_to_dict :: "row \<Rightarrow> pyval" where
  "Artist_to_dict self = PDict
     [(''id'', attr self ''id''),
      (''name'', attr self ''name''),
      (''genres'', attr self ''genres''),
      (''popularity'', attr self ''popularity''),
      (''followers'', attr self ''followers''),
      (''uri'', attr self ''uri'')]"

definition Album_to_dict :: "row \<Rightarrow> pyval" where
  "Album_to_dict self = PDict
     [(''id'', attr self ''id''),
      (''artist_id'', attr self ''artist_id''),
      (''name'', attr self ''name''),
      (''album_type'', attr self ''album_type''),
      (''release_date'', attr self ''release_date''),
      (''release_date_precision'', attr self ''release_date_precision''),
      (''total_tracks'', attr self ''total_tracks''),
      (''uri'', attr self ''uri'')]"

definition Track_to_dict :: "row \<Rightarrow> pyval" where
  "Track_to_dict self = PDict
     [(''id'', attr self ''id''),
      (''album_id'', attr self ''album_id''),
      (''name'', attr self ''name''),
      (''track_number'', attr self ''track_number''),
      (''duration_ms'', attr self ''duration_ms''),
      (''explicit'', attr self ''explicit''),
      (''uri'', attr self ''uri''),
      (''is_local'', attr self ''is_local'')]"

section \<open>The request handlers\<close>

text \<open>
  Of a request the add handlers read the JSON body only. \<^verbatim>\<open>is_json\<close> says whether the
  content type of the request announces JSON, and \<^verbatim>\<open>json_body\<close> is the value that its
  body parses to, None when the body is not a JSON text (an empty body is none).
  \<^verbatim>\<open>request.get_json()\<close> raises for a request that does not announce JSON (415,
  Unsupported Media Type) and for a body that does not parse (400, Bad Request).
\<close>

record request =
  is_json :: bool
  json_body :: "pyval option"

definition get_json :: "request \<Rightarrow> exn + pyval" where
  "get_json rq =
     (if \<not> is_json rq then Inl (Exn UnsupportedMediaType ''Unsupported Media Type'')
      else (case json_body rq of
              None \<Rightarrow> Inl (Exn BadRequest ''Bad Request'')
            | Some v \<Rightarrow> Inr v))"

text \<open>
  A response is the value handed to \<^verbatim>\<open>jsonify\<close> and the status code. A handler that
  writes takes the store and returns it, with its response or with the exception that
  leaves it. The log is not modelled, except for what writing a line of it can raise.
\<close>

type_synonym response = "pyval \<times> nat"

definition error_response :: "string \<Rightarrow> nat \<Rightarrow> response" where
  "error_response msg status = (PDict [(''error'', PStr msg)], status)"

definition message_response :: "string \<Rightarrow> nat \<Rightarrow> response" where
  "message_response msg status = (PDict [(''message'', PStr msg)], status)"

text \<open>
  What the client receives: the framework answers an exception that leaves a handler
  with the page of its status code, 500 when it is not an HTTP exception.
\<close>

fun status_of :: "exn \<Rightarrow> nat" where
  "status_of (Exn UnsupportedMediaType m) = 415"
| "status_of (Exn BadRequest m) = 400"
| "status_of (Exn c m) = 500"

definition flask_response :: "exn + response \<Rightarrow> response" where
  "flask_response r = (case r of Inl e \<Rightarrow> (PStr (str_exn e), status_of e) | Inr resp \<Rightarrow> resp)"

text \<open>The keyword arguments \<^verbatim>\<open>k=data.get('k')\<close>, evaluated from left to right.\<close>

fun py_get_each :: "pyval \<Rightarrow> string list \<Rightarrow> exn + row" where
  "py_get_each data [] = Inr []"
| "py_get_each data (k # ks) =
     (case py_get data k of
        Inl e \<Rightarrow> Inl e
      | Inr v \<Rightarrow> map_sum id ((#) (k, v)) (py_get_each data ks))"

definition of_date_option :: "date option \<Rightarrow> pyval" where
  "of_date_option r = (case r of None \<Rightarrow> PNone | Some d \<Rightarrow> PDate d)"

text \<open>
  The end of every \<^verbatim>\<open>try\<close> block: the new object is added and committed, then the line
  for the log reads its name, which reloads the object, and the handler answers 201.
\<close>

definition add_and_commit :: "db \<Rightarrow> obj \<Rightarrow> string \<Rightarrow> (exn + response) \<times> db" where
  "add_and_commit s ob msg =
     (case session_commit (session_add s ob) of
        (Inl e, s') \<Rightarrow> (Inl e, s')
      | (Inr u, s') \<Rightarrow>
          (case refresh s' ob of
             Inl e \<Rightarrow> (Inl e, s')
           | Inr x \<Rightarrow> (Inr (message_response msg 201), s')))"

text \<open>The \<^verbatim>\<open>except Exception\<close> clause of the three add handlers.\<close>

definition except_rollback :: "(exn + response) \<times> db \<Rightarrow> response \<times> db" where
  "except_rollback r =
     (case r of
        (Inr resp, s') \<Rightarrow> (resp, s')
      | (Inl e, s') \<Rightarrow> (error_response (str_exn e) 400, session_rollback s'))"

definition add_artist_try :: "db \<Rightarrow> pyval \<Rightarrow> (exn + response) \<times> db" where
  "add_artist_try s data =
     (case py_get_each data [''id'', ''name'', ''genres'', ''popularity'', ''followers'', ''uri''] of
        Inl e \<Rightarrow> (Inl e, s)
      | Inr kw \<Rightarrow> add_and_commit s (Artist, kw) ''Artist added successfully'')"

definition add_artist :: "db \<Rightarrow> request \<Rightarrow> (exn + response) \<times> db" where
  "add_artist s rq =
     (case get_json rq of
        Inl e \<Rightarrow> (Inl e, s)
      | Inr data \<Rightarrow>
          (if \<not> truthy data then (Inr (error_response ''No input data provided'' 400), s)
           else map_prod Inr id (except_rollback (add_artist_try s data))))"

definition add_album_try :: "db \<Rightarrow> pyval \<Rightarrow> (exn + response) \<times> db" where
  "add_album_try s data =
     (case py_get data ''release_date'' of
        Inl e \<Rightarrow> (Inl e, s)
      | Inr v \<Rightarrow>
          (case parse_release_date v of
             Inl e \<Rightarrow> (Inl e, s)
           | Inr release_date \<Rightarrow>
               (case py_get_each data [''id'', ''artist_id'', ''name'', ''album_type''] of
                  Inl e \<Rightarrow> (Inl e, s)
                | Inr kw1 \<Rightarrow>
                    (case py_get_each data [''release_date_precision'', ''total_tracks'', ''uri''] of
                       Inl e \<Rightarrow> (Inl e, s)
                     | Inr kw2 \<Rightarrow>
                         add_and_commit s
                           (Album, kw1 @ [(''release_date'', of_date_option release_date)] @ kw2)
                           ''Album added successfully''))))"

definition add_album :: "db \<Rightarrow> request \<Rightarrow> (exn + response) \<times> db" where
  "add_album s rq =
     (case get_json rq of
        Inl e \<Rightarrow> (Inl e, s)
      | Inr data \<Rightarrow>
          (if \<not> truthy data then (Inr (error_response ''No input data provided'' 400), s)
           else map_prod Inr id (except_rollback (add_album_try s data))))"

definition add_track_try :: "db \<Rightarrow> pyval \<Rightarrow> (exn + response) \<times> db" where
  "add_track_try s data =
     (case py_get_each data
             [''id'', ''album_id'', ''name'', ''track_number'', ''duration_ms'', ''explicit'', ''uri'', ''is_local''] of
        Inl e \<Rightarrow> (Inl e, s)
      | Inr kw \<Rightarrow> add_and_commit s (Track, kw) ''Track added successfully'')"

definition add_track :: "db \<Rightarrow> request \<Rightarrow> (exn + response) \<times> db" where
  "add_track s rq =
     (case get_json rq of
        Inl e \<Rightarrow> (Inl e, s)
      | Inr data \<Rightarrow>
          (if \<not> truthy data then (Inr (error_response ''No input data provided'' 400), s)
           else map_prod Inr id (except_rollback (add_track_try s data))))"

text \<open>The read handlers: any exception of the query is a 500.\<close>

definition get_all_handler :: "db \<Rightarrow> model_cls \<Rightarrow> (row \<Rightarrow> pyval) \<Rightarrow> response" where
  "get_all_handler s mdl to_dict =
     (case query_all s mdl of
        Inl e \<Rightarrow> error_response (str_exn e) 500
      | Inr rows \<Rightarrow> (PList (map to_dict rows), 200))"

definition get_one_handler :: "db \<Rightarrow> model_cls \<Rightarrow> (row \<Rightarrow> pyval) \<Rightarrow> string \<Rightarrow> string \<Rightarrow> response" where
  "get_one_handler s mdl to_dict not_found ident =
     (case query_get s mdl ident of
        Inl e \<Rightarrow> error_response (str_exn e) 500
      | Inr None \<Rightarrow> error_response not_found 404
      | Inr (Some r) \<Rightarrow> (to_dict r, 200))"

definition get_artists :: "db \<Rightarrow> response" where
  "get_artists s = get_all_handler s Artist Artist_to_dict"

definition get_artist :: "db \<Rightarrow> string \<Rightarrow> response" where
  "get_artist s ident = get_one_handler s Artist Artist_to_dict ''Artist not found'' ident"


definition get_album :: "db \<Rightarrow> string \<Rightarrow> response" where
  "get_album s ident = get_one_handler s Album Album_to_dict ''Album not found'' ident"



section \<open>Notions used to state the properties\<close>

text \<open>A request that announces JSON and whose body parses to the given value.\<close>

definition json_request :: "pyval \<Rightarrow> request" where
  "json_request data = \<lparr>is_json = True, json_body = Some data\<rparr>"

text \<open>
  The rows that the three add handlers build from a request object: one attribute per
  keyword argument of the constructor, in the order of the source.
\<close>

definition artist_row :: "row \<Rightarrow> row" where
  "artist_row kvs = map (\<lambda>k. (k, attr kvs k)) [''id'', ''name'', ''genres'', ''popularity'', ''followers'', ''uri'']"

definition release_date_of :: "pyval \<Rightarrow> pyval" where
  "release_date_of v = (case parse_release_date v of Inr r \<Rightarrow> of_date_option r | Inl e \<Rightarrow> PNone)"

definition album_row :: "row \<Rightarrow> pyval \<Rightarrow> row" where
  "album_row kvs rd =
     [(''id'', attr kvs ''id''), (''artist_id'', attr kvs ''artist_id''), (''name'', attr kvs ''name''),
      (''album_type'', attr kvs ''album_type''), (''release_date'', rd),
      (''release_date_precision'', attr kvs ''release_date_precision''),
      (''total_tracks'', attr kvs ''total_tracks''), (''uri'', attr kvs ''uri'')]"

definition track_row :: "row \<Rightarrow> row" where
  "track_row kvs = map (\<lambda>k. (k, attr kvs k))
     [''id'', ''album_id'', ''name'', ''track_number'', ''duration_ms'', ''explicit'', ''uri'', ''is_local'']"

text \<open>
  A valid payload is a JSON object in which every field of the given columns has the type
  of its column, or is null or absent where the column is nullable.
\<close>

fun is_column_value :: "coltype \<Rightarrow> pyval \<Rightarrow> bool" where
  "is_column_value t PNone = True"
| "is_column_value String (PStr s) = (CHR 0x00 \<notin> set s)"
| "is_column_value Integer (PInt n) = (- (2 ^ 31) \<le> n \<and> n < 2 ^ 31)"
| "is_column_value Boolean (PBool b) = True"
| "is_column_value Date (PDate d) = True"
| "is_column_value t v = False"

definition valid_field :: "row \<Rightarrow> column \<Rightarrow> bool" where
  "valid_field kvs c =
     (is_column_value (col_type c) (attr kvs (col_name c))
      \<and> (nullable c \<or> attr kvs (col_name c) \<noteq> PNone))"

definition valid_payload :: "column list \<Rightarrow> pyval \<Rightarrow> bool" where
  "valid_payload cols data = (case data of PDict kvs \<Rightarrow> list_all (valid_field kvs) cols | _ \<Rightarrow> False)"

text \<open>
  What the theorems ask of the engine: that it stores a value of the column's type as it
  is, and that a scan returns every row of the table once.
\<close>

definition keeps_typed :: "db \<Rightarrow> bool" where
  "keeps_typed s = (\<forall>t v. is_column_value t v \<longrightarrow> cast s t v = Inr v)"

definition scans_all :: "db \<Rightarrow> bool" where
  "scans_all s = (\<forall>rows. mset (scan s rows) = mset rows)"

text \<open>The identities of a table, and the invariant that no table holds an identity twice.\<close>

definition ids :: "db \<Rightarrow> string \<Rightarrow> pyval list" where
  "ids s t = map (\<lambda>r. attr r ''id'') (tables s t)"

definition unique_ids :: "db \<Rightarrow> bool" where
  "unique_ids s = (distinct (ids s ''artists'') \<and> distinct (ids s ''albums'') \<and> distinct (ids s ''tracks''))"

text \<open>
  The two-character months and days that the regular expressions of \<^verbatim>\<open>%m\<close> and
  \<^verbatim>\<open>%d\<close> accept.
\<close>

definition month2 :: "char \<Rightarrow> char \<Rightarrow> bool" where
  "month2 e f = (e = CHR ''1'' \<and> f \<in> set ''012'' \<or> e = CHR ''0'' \<and> nonzero_digit f)"

definition day2 :: "char \<Rightarrow> char \<Rightarrow> bool" where
  "day2 g j = (g = CHR ''3'' \<and> j \<in> set ''01'' \<or> g \<in> set ''12'' \<and> is_digit j \<or> g = CHR ''0'' \<and> nonzero_digit j)"

text \<open>
  An engine for the examples. It keeps a value of the column's type, stores an integer
  bound for a string column as its decimal numeral and a string of digits bound for an
  integer column as its number, and refuses every other value. The theorems hold for
  every engine with the property they name; only the examples use this one.
\<close>

fun decimal_nat :: "nat \<Rightarrow> string" where
  "decimal_nat n =
     (if n < 10 then [char_of (48 + n)] else decimal_nat (n div 10) @ [char_of (48 + n mod 10)])"

declare decimal_nat.simps [simp del]

definition decimal :: "int \<Rightarrow> string" where
  "decimal n = (if n < 0 then CHR ''-'' # decimal_nat (nat (- n)) else decimal_nat (nat n))"

fun example_cast :: "coltype \<Rightarrow> pyval \<Rightarrow> exn + pyval" where
  "example_cast t PNone = Inr PNone"
| "example_cast String (PStr s) =
     (if CHR 0x00 \<in> set s then Inl (Exn ValueError ''A string literal cannot contain NUL (0x00) characters.'')
      else Inr (PStr s))"
| "example_cast String (PInt n) = Inr (PStr (decimal n))"
| "example_cast Integer (PInt n) =
     (if - (2 ^ 31) \<le> n \<and> n < 2 ^ 31 then Inr (PInt n) else Inl (Exn DataError ''integer out of range''))"
| "example_cast Integer (PStr s) =
     (if s \<noteq> [] \<and> list_all is_digit s \<and> int (num s) < 2 ^ 31 then Inr (PInt (int (num s)))
      else Inl (Exn DataError ''invalid input syntax for type integer''))"
| "example_cast Boolean (PBool b) = Inr (PBool b)"
| "example_cast Date (PDate d) = Inr (PDate d)"
| "example_cast t v = Inl (Exn DataError (''cannot store a value of type '' @ type_name v))"

text \<open>Sample requests, and stores that hold one artist and one album.\<close>

definition empty_db :: db where
  "empty_db = \<lparr>tables = (\<lambda>t. []), session = [], fault = None, cast = example_cast, scan = (\<lambda>rows. rows)\<rparr>"

definition queen_row :: row where
  "queen_row = [(''id'', PStr ''a1''), (''name'', PStr ''Queen''), (''genres'', PStr ''rock''),
     (''popularity'', PInt 90), (''followers'', PInt 1000), (''uri'', PStr ''spotify:artist:a1'')]"

definition queen :: pyval where
  "queen = PDict queen_row"

definition bowie_fields :: row where
  "bowie_fields = [(''name'', PStr ''David Bowie''), (''id'', PStr ''a2''), (''label'', PStr ''RCA'')]"

definition jazz_fields :: "string \<Rightarrow> row" where
  "jazz_fields rd = [(''id'', PStr ''b1''), (''artist_id'', PStr ''a1''), (''name'', PStr ''Jazz''),
     (''album_type'', PStr ''album''), (''release_date'', PStr rd),
     (''release_date_precision'', PStr ''day''), (''total_tracks'', PInt 13)]"

definition jazz :: "string \<Rightarrow> pyval" where
  "jazz rd = PDict (jazz_fields rd)"

definition bicycle_row :: row where
  "bicycle_row = [(''id'', PStr ''t1''), (''album_id'', PStr ''b1''), (''name'', PStr ''Bicycle Race''),
     (''track_number'', PInt 4), (''duration_ms'', PInt 181000), (''explicit'', PBool False),
     (''uri'', PNone), (''is_local'', PBool False)]"

definition bicycle :: pyval where
  "bicycle = PDict bicycle_row"

definition queen_db :: db where
  "queen_db = \<lparr>tables = (\<lambda>t. if t = ''artists'' then [queen_row] else []), session = [], fault = None,
     cast = example_cast, scan = (\<lambda>rows. rows)\<rparr>"

definition failing_db :: db where
  "failing_db = queen_db\<lparr>fault := Some ''server closed the connection''\<rparr>"

definition newest_first_db :: db where
  "newest_first_db = empty_db\<lparr>scan := rev\<rparr>"

definition seven :: row where
  "seven = [(''id'', PInt 7), (''name'', PStr ''Seven'')]"

definition ninety :: row where
  "ninety = [(''id'', PStr ''a9''), (''name'', PStr ''Ninety''), (''popularity'', PStr ''90'')]"

text \<open>A request without a body, and one that announces JSON with an empty body.\<close>

definition no_body :: request where
  "no_body = \<lparr>is_json = False, json_body = None\<rparr>"

definition empty_body :: request where
  "empty_body = \<lparr>is_json = True, json_body = None\<rparr>"

section \<open>Facts about the store and the handlers\<close>

lemma pk_of_Artist [simp]: "pk_of Artist r = [attr r ''id'']"
  by (simp add: pk_of_def Artist_def Column_def)

lemma pk_of_Album [simp]: "pk_of Album r = [attr r ''id'']"
  by (simp add: pk_of_def Album_def Column_def)

lemma pk_of_Track [simp]: "pk_of Track r = [attr r ''id'']"
  by (simp add: pk_of_def Track_def Column_def)

lemma tablename_simps [simp]:
  "tablename Artist = ''artists''" "tablename Album = ''albums''" "tablename Track = ''tracks''"
  by (simp_all add: Artist_def Album_def Track_def)

lemma attr_Nil [simp]: "attr [] k = PNone"
  by (simp add: attr_def)

lemma attr_Cons [simp]: "attr ((k, v) # r) k' = (if k = k' then v else attr r k')"
  by (simp add: attr_def)

lemma py_get_dict: "py_get (PDict kvs) k = Inr (attr kvs k)"
  by (simp add: attr_def)

lemma py_get_each_dict: "py_get_each (PDict kvs) ks = Inr (map (\<lambda>k. (k, attr kvs k)) ks)"
  by (induction ks) (simp_all add: attr_def)

lemma get_json_request [simp]: "get_json (json_request data) = Inr data"
  by (simp add: get_json_def json_request_def)

lemma row_id [simp]:
  "attr (artist_row kvs) ''id'' = attr kvs ''id''"
  "attr (track_row kvs) ''id'' = attr kvs ''id''"
  "attr (album_row kvs rd) ''id'' = attr kvs ''id''"
  by (simp_all add: artist_row_def track_row_def album_row_def)

text \<open>The first column of each table is the identity, so the stored identity is its cast.\<close>

lemma first_column:
  "columns Artist = (Column ''id'' String)\<lparr>primary_key := True, nullable := False\<rparr> # tl (columns Artist)"
  "columns Album = (Column ''id'' String)\<lparr>primary_key := True, nullable := False\<rparr> # tl (columns Album)"
  "columns Track = (Column ''id'' String)\<lparr>primary_key := True, nullable := False\<rparr> # tl (columns Track)"
  by (simp_all add: Artist_def Album_def Track_def)

lemma adapt_row_first:
  assumes "adapt_row cv (c # cs) r = Inr vals"
  shows "cv (col_type c) (attr r (col_name c)) = Inr (attr vals (col_name c))"
  using assms by (auto split: sum.splits simp: map_sum_def)

lemma stored_id:
  assumes "mdl = Artist \<or> mdl = Album \<or> mdl = Track" "adapt_row cv (columns mdl) r = Inr vals"
  shows "cv String (attr r ''id'') = Inr (attr vals ''id'')"
proof -
  from assms(1) obtain cs where "columns mdl = (Column ''id'' String)\<lparr>primary_key := True, nullable := False\<rparr> # cs"
    using first_column by metis
  with assms(2) adapt_row_first [of cv "(Column ''id'' String)\<lparr>primary_key := True, nullable := False\<rparr>" cs r vals]
  show ?thesis by (simp add: Column_def)
qed

lemma insert_row_Inr:
  assumes "insert_row cv tabs (mdl, r) = Inr tabs'"
  shows "\<exists>vals. adapt_row cv (columns mdl) r = Inr vals
          \<and> tabs' = tabs(tablename mdl := tabs (tablename mdl) @ [vals])
          \<and> pk_of mdl vals \<notin> set (map (pk_of mdl) (tabs (tablename mdl)))"
  using assms
  by (auto simp: insert_row_def split: sum.splits option.splits if_splits)

lemma single_key_mem: "[v] \<in> set (map (\<lambda>r. [f r]) rows) \<longleftrightarrow> v \<in> f ` set rows"
  by auto

text \<open>
  The three ways in which the end of a \<^verbatim>\<open>try\<close> block goes: the commit raises and nothing
  is written; the row is written and all is well; the row is written and reading the
  object back raises.
\<close>

lemma add_and_commit_cases:
  assumes "session s = []"
  shows "(\<exists>e. session_commit (session_add s (mdl, r)) = (Inl e, session_add s (mdl, r))
             \<and> add_and_commit s (mdl, r) msg = (Inl e, session_add s (mdl, r)))
       \<or> (\<exists>vals out. fault s = None \<and> adapt_row (cast s) (columns mdl) r = Inr vals
             \<and> pk_of mdl vals \<notin> set (map (pk_of mdl) (tables s (tablename mdl)))
             \<and> add_and_commit s (mdl, r) msg =
                 (out, s\<lparr>tables := (tables s)(tablename mdl := tables s (tablename mdl) @ [vals]), session := []\<rparr>)
             \<and> (out = Inr (PDict [(''message'', PStr msg)], 201) \<or> (\<exists>e. out = Inl e)))"
proof (cases "fst (session_commit (session_add s (mdl, r)))")
  case (Inl e)
  then have "session_commit (session_add s (mdl, r)) = (Inl e, session_add s (mdl, r))"
    by (auto simp: session_commit_def split: option.splits sum.splits)
  then show ?thesis
    by (simp add: add_and_commit_def)
next
  case (Inr u)
  then obtain tabs' where f: "fault s = None"
    and t: "insert_row (cast s) (tables s) (mdl, r) = Inr tabs'"
    and c: "session_commit (session_add s (mdl, r)) = (Inr (), s\<lparr>tables := tabs', session := []\<rparr>)"
    using assms
    by (auto simp: session_commit_def session_add_def split: option.splits sum.splits)
  from insert_row_Inr [OF t] obtain vals where v: "adapt_row (cast s) (columns mdl) r = Inr vals"
    "tabs' = (tables s)(tablename mdl := tables s (tablename mdl) @ [vals])"
    "pk_of mdl vals \<notin> set (map (pk_of mdl) (tables s (tablename mdl)))"
    by blast
  show ?thesis
    using f v c
    by (cases "refresh (s\<lparr>tables := tabs', session := []\<rparr>) (mdl, r)")
       (auto simp: add_and_commit_def message_response_def)
qed

lemma rollback_clean: "session s = [] \<Longrightarrow> session_rollback s = s"
  by (simp add: session_rollback_def)

lemma insert_outcome:
  assumes "session s = []" and pk: "pk_of mdl = (\<lambda>r. [attr r ''id''])"
  shows "(\<exists>m. except_rollback (add_and_commit s (mdl, r) msg) = ((PDict [(''error'', PStr m)], 400), s))
       \<or> (\<exists>vals resp. fault s = None \<and> adapt_row (cast s) (columns mdl) r = Inr vals
          \<and> attr vals ''id'' \<notin> (\<lambda>r. attr r ''id'') ` set (tables s (tablename mdl))
          \<and> except_rollback (add_and_commit s (mdl, r) msg) =
              (resp, s\<lparr>tables := (tables s)(tablename mdl := tables s (tablename mdl) @ [vals]), session := []\<rparr>)
          \<and> (resp = (PDict [(''message'', PStr msg)], 201) \<or> (\<exists>m. resp = (PDict [(''error'', PStr m)], 400))))"
  using add_and_commit_cases [OF assms(1), of mdl r msg] assms(1)
  unfolding pk single_key_mem
  by (elim disjE exE conjE)
     (auto simp: except_rollback_def error_response_def session_rollback_def session_add_def)

lemma add_artist_try_dict:
  "add_artist_try s (PDict kvs) = add_and_commit s (Artist, artist_row kvs) ''Artist added successfully''"
  by (simp add: add_artist_try_def py_get_each_dict artist_row_def del: py_get_each.simps)

lemma add_track_try_dict:
  "add_track_try s (PDict kvs) = add_and_commit s (Track, track_row kvs) ''Track added successfully''"
  by (simp add: add_track_try_def py_get_each_dict track_row_def del: py_get_each.simps)

lemma parse_release_date_total: "\<exists>r. parse_release_date v = Inr r"
  by (simp add: parse_release_date_def split: sum.splits)

lemma add_album_try_dict:
  "add_album_try s (PDict kvs) =
     add_and_commit s (Album, album_row kvs (release_date_of (attr kvs ''release_date'')))
       ''Album added successfully''"
proof -
  obtain r where r: "parse_release_date (attr kvs ''release_date'') = Inr r"
    using parse_release_date_total by blast
  show ?thesis
    by (simp add: add_album_try_def py_get_each_dict py_get_dict r release_date_of_def album_row_def
        del: py_get_each.simps py_get.simps)
qed

lemma add_try_not_dict:
  assumes "\<forall>kvs. data \<noteq> PDict kvs"
  shows "\<exists>e. add_artist_try s data = (Inl e, s) \<and> add_album_try s data = (Inl e, s)
           \<and> add_track_try s data = (Inl e, s)"
  using assms by (cases data) (auto simp: add_artist_try_def add_album_try_def add_track_try_def)

text \<open>The handlers on a request that carries a JSON value.\<close>

lemma add_on_json:
  "add_artist s (json_request data) =
     (if \<not> truthy data then (Inr (PDict [(''error'', PStr ''No input data provided'')], 400), s)
      else map_prod Inr id (except_rollback (add_artist_try s data)))"
  "add_album s (json_request data) =
     (if \<not> truthy data then (Inr (PDict [(''error'', PStr ''No input data provided'')], 400), s)
      else map_prod Inr id (except_rollback (add_album_try s data)))"
  "add_track s (json_request data) =
     (if \<not> truthy data then (Inr (PDict [(''error'', PStr ''No input data provided'')], 400), s)
      else map_prod Inr id (except_rollback (add_track_try s data)))"
  by (simp_all add: add_artist_def add_album_def add_track_def error_response_def)

text \<open>
  What an add handler does to a store without pending writes: it answers 400 and leaves
  the store as it was, or it writes one row with a new identity and answers 201 or 400.
\<close>

lemma add_outcome:
  assumes c: "session s = []" and pk: "pk_of mdl = (\<lambda>r. [attr r ''id''])"
    and h: "handler = (if \<not> truthy data then (Inr (PDict [(''error'', PStr ''No input data provided'')], 400), s)
                       else map_prod Inr id (except_rollback tried))"
    and n: "(\<forall>kvs. data \<noteq> PDict kvs) \<longrightarrow> (\<exists>e. tried = (Inl e, s))"
    and d: "\<And>kvs. data = PDict kvs \<Longrightarrow> tried = add_and_commit s (mdl, build kvs) msg"
  shows "(\<exists>m. handler = (Inr (PDict [(''error'', PStr m)], 400), s))
       \<or> (\<exists>kvs vals resp. data = PDict kvs \<and> fault s = None
            \<and> adapt_row (cast s) (columns mdl) (build kvs) = Inr vals
            \<and> attr vals ''id'' \<notin> (\<lambda>r. attr r ''id'') ` set (tables s (tablename mdl))
            \<and> handler = (Inr resp,
                 s\<lparr>tables := (tables s)(tablename mdl := tables s (tablename mdl) @ [vals]), session := []\<rparr>)
            \<and> (resp = (PDict [(''message'', PStr msg)], 201) \<or> (\<exists>m. resp = (PDict [(''error'', PStr m)], 400))))"
proof (cases "truthy data")
  case False
  with h show ?thesis by simp
next
  case t: True
  show ?thesis
  proof (cases "\<exists>kvs. data = PDict kvs")
    case False
    with n obtain e where "tried = (Inl e, s)" by blast
    with t h c show ?thesis
      by (simp add: except_rollback_def error_response_def rollback_clean)
  next
    case True
    then obtain kvs where k: "data = PDict kvs" by blast
    from insert_outcome [OF c pk, of "build kvs" msg] d [OF k] t h k
    show ?thesis
      by (elim disjE exE conjE) auto
  qed
qed

lemma add_artist_outcome:
  assumes "session s = []"
  shows "(\<exists>m. add_artist s (json_request data) = (Inr (PDict [(''error'', PStr m)], 400), s))
       \<or> (\<exists>kvs vals resp. data = PDict kvs \<and> fault s = None
            \<and> adapt_row (cast s) (columns Artist) (artist_row kvs) = Inr vals
            \<and> attr vals ''id'' \<notin> (\<lambda>r. attr r ''id'') ` set (tables s ''artists'')
            \<and> add_artist s (json_request data) = (Inr resp,
                 s\<lparr>tables := (tables s)(''artists'' := tables s ''artists'' @ [vals]), session := []\<rparr>)
            \<and> (resp = (PDict [(''message'', PStr ''Artist added successfully'')], 201)
                \<or> (\<exists>m. resp = (PDict [(''error'', PStr m)], 400))))"
proof -
  have p: "pk_of Artist = (\<lambda>r. [attr r ''id''])"
    by (simp add: fun_eq_iff)
  have n: "(\<forall>kvs. data \<noteq> PDict kvs) \<longrightarrow> (\<exists>e. add_artist_try s data = (Inl e, s))"
    using add_try_not_dict [of data s] by blast
  have d: "data = PDict kvs \<Longrightarrow>
      add_artist_try s data = add_and_commit s (Artist, (artist_row) kvs) ''Artist added successfully''" for kvs
    by (simp add: add_artist_try_dict)
  from add_outcome [OF assms p add_on_json(1) n d]
  show ?thesis by simp
qed

lemma add_album_outcome:
  assumes "session s = []"
  shows "(\<exists>m. add_album s (json_request data) = (Inr (PDict [(''error'', PStr m)], 400), s))
       \<or> (\<exists>kvs vals resp. data = PDict kvs \<and> fault s = None
            \<and> adapt_row (cast s) (columns Album) (album_row kvs (release_date_of (attr kvs ''release_date''))) = Inr vals
            \<and> attr vals ''id'' \<notin> (\<lambda>r. attr r ''id'') ` set (tables s ''albums'')
            \<and> add_album s (json_request data) = (Inr resp,
                 s\<lparr>tables := (tables s)(''albums'' := tables s ''albums'' @ [vals]), session := []\<rparr>)
            \<and> (resp = (PDict [(''message'', PStr ''Album added successfully'')], 201)
                \<or> (\<exists>m. resp = (PDict [(''error'', PStr m)], 400))))"
proof -
  have p: "pk_of Album = (\<lambda>r. [attr r ''id''])"
    by (simp add: fun_eq_iff)
  have n: "(\<forall>kvs. data \<noteq> PDict kvs) \<longrightarrow> (\<exists>e. add_album_try s data = (Inl e, s))"
    using add_try_not_dict [of data s] by blast
  have d: "data = PDict kvs \<Longrightarrow>
      add_album_try s data = add_and_commit s (Album, (\<lambda>kvs. album_row kvs (release_date_of (attr kvs ''release_date''))) kvs) ''Album added successfully''" for kvs
    by (simp add: add_album_try_dict)
  from add_outcome [OF assms p add_on_json(2) n d]
  show ?thesis by simp
qed

lemma add_track_outcome:
  assumes "session s = []"
  shows "(\<exists>m. add_track s (json_request data) = (Inr (PDict [(''error'', PStr m)], 400), s))
       \<or> (\<exists>kvs vals resp. data = PDict kvs \<and> fault s = None
            \<and> adapt_row (cast s) (columns Track) (track_row kvs) = Inr vals
            \<and> attr vals ''id'' \<notin> (\<lambda>r. attr r ''id'') ` set (tables s ''tracks'')
            \<and> add_track s (json_request data) = (Inr resp,
                 s\<lparr>tables := (tables s)(''tracks'' := tables s ''tracks'' @ [vals]), session := []\<rparr>)
            \<and> (resp = (PDict [(''message'', PStr ''Track added successfully'')], 201)
                \<or> (\<exists>m. resp = (PDict [(''error'', PStr m)], 400))))"
proof -
  have p: "pk_of Track = (\<lambda>r. [attr r ''id''])"
    by (simp add: fun_eq_iff)
  have n: "(\<forall>kvs. data \<noteq> PDict kvs) \<longrightarrow> (\<exists>e. add_track_try s data = (Inl e, s))"
    using add_try_not_dict [of data s] by blast
  have d: "data = PDict kvs \<Longrightarrow>
      add_track_try s data = add_and_commit s (Track, (track_row) kvs) ''Track added successfully''" for kvs
    by (simp add: add_track_try_dict)
  from add_outcome [OF assms p add_on_json(3) n d]
  show ?thesis by simp
qed

section \<open>The date parser never raises\<close>

text \<open>
  Claim C3. \<^verbatim>\<open>parse_release_date\<close> returns for every input, and whenever the body of
  its \<^verbatim>\<open>try\<close> block raises (as \<^verbatim>\<open>len\<close> does on None and \<^verbatim>\<open>strptime\<close> on a
  string that does not parse) the result is None.
\<close>

theorem parse_release_date_never_raises:
  "(\<exists>r. parse_release_date x = Inr r)
 \<and> (\<forall>e. parse_release_date_try x = Inl e \<longrightarrow> parse_release_date x = Inr None)"
  by (simp add: parse_release_date_def split: sum.splits)

theorem parse_release_date_never_raises_witness:
  "parse_release_date_try PNone =
     Inl (Exn TypeError (''object of type '' @ [CHR 39] @ ''NoneType'' @ [CHR 39] @ '' has no len()''))
 \<and> parse_release_date PNone = Inr None
 \<and> parse_release_date_try (PStr ''2020-1x'') = Inl (Exn ValueError ''unconverted data remains: x'')
 \<and> parse_release_date (PStr ''2020-1x'') = Inr None"
proof -
  have a: "parse_release_date_try PNone =
     Inl (Exn TypeError (''object of type '' @ [CHR 39] @ ''NoneType'' @ [CHR 39] @ '' has no len()''))"
    by code_simp
  have b: "parse_release_date_try (PStr ''2020-1x'') = Inl (Exn ValueError ''unconverted data remains: x'')"
    by code_simp
  from a b parse_release_date_never_raises [of PNone]
    parse_release_date_never_raises [of "PStr ''2020-1x''"]
  show ?thesis by blast
qed

lemmas store_eval = add_and_commit_def session_commit_def session_add_def insert_row_def refresh_def
  null_violation_def fk_violation_def pk_of_def Artist_def Album_def Track_def Column_def
  except_rollback_def session_rollback_def error_response_def message_response_def

section \<open>Requests without a body\<close>

text \<open>
  Claim C4. The claim does not hold of the code. \<^verbatim>\<open>request.get_json()\<close> raises for a
  request without a body before the handler tests its data: the client receives 415 for a
  request that announces no JSON and the framework's own 400 for an empty JSON body, and
  the message \<^verbatim>\<open>No input data provided\<close> of the handler is never sent for either. In
  both cases the store is returned as it was.
\<close>

theorem missing_body_leaves_handler:
  "add_artist s no_body = (Inl (Exn UnsupportedMediaType ''Unsupported Media Type''), s)
 \<and> add_album s no_body = (Inl (Exn UnsupportedMediaType ''Unsupported Media Type''), s)
 \<and> add_track s no_body = (Inl (Exn UnsupportedMediaType ''Unsupported Media Type''), s)
 \<and> flask_response (fst (add_artist s no_body)) = (PStr ''Unsupported Media Type'', 415)
 \<and> flask_response (fst (add_album s no_body)) = (PStr ''Unsupported Media Type'', 415)
 \<and> flask_response (fst (add_track s no_body)) = (PStr ''Unsupported Media Type'', 415)
 \<and> add_artist s empty_body = (Inl (Exn BadRequest ''Bad Request''), s)
 \<and> add_album s empty_body = (Inl (Exn BadRequest ''Bad Request''), s)
 \<and> add_track s empty_body = (Inl (Exn BadRequest ''Bad Request''), s)
 \<and> flask_response (fst (add_artist s empty_body)) = (PStr ''Bad Request'', 400)"
  by (simp add: add_artist_def add_album_def add_track_def get_json_def no_body_def empty_body_def
      flask_response_def)



section \<open>Failed inserts\<close>

lemma commit_fail_state:
  "fst (session_commit s) = Inl e \<Longrightarrow> session_commit s = (Inl e, s)"
  by (auto simp: session_commit_def split: option.splits sum.splits)

lemma failed_insert:
  assumes "fst (session_commit (session_add s ob)) = Inl e"
  shows "except_rollback (add_and_commit s ob msg) =
           ((PDict [(''error'', PStr (str_exn e))], 400), s\<lparr>session := []\<rparr>)"
  using commit_fail_state [OF assms]
  by (simp add: add_and_commit_def except_rollback_def error_response_def session_rollback_def session_add_def)

text \<open>
  Claim C5. On each add endpoint, when the commit of the new object raises, for whatever
  reason, the response has status 400 and carries the text of the exception, and the store
  is the one before the request with an empty session: the tables are unchanged and the
  object that was to be written is gone.
\<close>

theorem failed_insert_rolled_back:
  assumes "kvs \<noteq> []"
  shows "(\<forall>e. fst (session_commit (session_add s (Artist, artist_row kvs))) = Inl e \<longrightarrow>
            add_artist s (json_request (PDict kvs)) =
              (Inr (PDict [(''error'', PStr (str_exn e))], 400), s\<lparr>session := []\<rparr>))
       \<and> (\<forall>e. fst (session_commit (session_add s
                    (Album, album_row kvs (release_date_of (attr kvs ''release_date''))))) = Inl e \<longrightarrow>
            add_album s (json_request (PDict kvs)) =
              (Inr (PDict [(''error'', PStr (str_exn e))], 400), s\<lparr>session := []\<rparr>))
       \<and> (\<forall>e. fst (session_commit (session_add s (Track, track_row kvs))) = Inl e \<longrightarrow>
            add_track s (json_request (PDict kvs)) =
              (Inr (PDict [(''error'', PStr (str_exn e))], 400), s\<lparr>session := []\<rparr>))"
  using assms
  by (simp add: add_on_json add_artist_try_dict add_album_try_dict add_track_try_dict failed_insert)

theorem failed_insert_rolled_back_witness:
  "queen_row \<noteq> []
 \<and> fst (session_commit (session_add queen_db (Artist, artist_row queen_row))) =
      Inl (Exn IntegrityError ''duplicate key value violates unique constraint'')
 \<and> add_artist queen_db (json_request (PDict queen_row)) =
      (Inr (PDict [(''error'', PStr ''duplicate key value violates unique constraint'')], 400), queen_db)
 \<and> bicycle_row \<noteq> []
 \<and> fst (session_commit (session_add queen_db (Track, track_row bicycle_row))) =
      Inl (Exn IntegrityError ''foreign key violation in column album_id'')
 \<and> add_track queen_db (json_request (PDict bicycle_row)) =
      (Inr (PDict [(''error'', PStr ''foreign key violation in column album_id'')], 400), queen_db)
 \<and> jazz_fields ''1978-11-10'' \<noteq> []
 \<and> fst (session_commit (session_add failing_db
           (Album, album_row (jazz_fields ''1978-11-10'')
                     (release_date_of (attr (jazz_fields ''1978-11-10'') ''release_date''))))) =
      Inl (Exn OperationalError ''server closed the connection'')
 \<and> add_album failing_db (json_request (PDict (jazz_fields ''1978-11-10''))) =
      (Inr (PDict [(''error'', PStr ''server closed the connection'')], 400), failing_db)"
proof -
  have q: "queen_db\<lparr>session := []\<rparr> = queen_db" "failing_db\<lparr>session := []\<rparr> = failing_db"
    by (simp_all add: queen_db_def failing_db_def)
  have n: "queen_row \<noteq> []" "bicycle_row \<noteq> []" "jazz_fields ''1978-11-10'' \<noteq> []"
    by (simp_all add: queen_row_def bicycle_row_def jazz_fields_def)
  have a: "fst (session_commit (session_add queen_db (Artist, artist_row queen_row))) =
      Inl (Exn IntegrityError ''duplicate key value violates unique constraint'')"
    by (simp add: artist_row_def store_eval queen_db_def queen_row_def)
  have b: "fst (session_commit (session_add queen_db (Track, track_row bicycle_row))) =
      Inl (Exn IntegrityError ''foreign key violation in column album_id'')"
    by (simp add: track_row_def store_eval queen_db_def bicycle_row_def)
  have c: "fst (session_commit (session_add failing_db
           (Album, album_row (jazz_fields ''1978-11-10'')
                     (release_date_of (attr (jazz_fields ''1978-11-10'') ''release_date''))))) =
      Inl (Exn OperationalError ''server closed the connection'')"
    by (simp add: session_commit_def session_add_def failing_db_def)
  from failed_insert_rolled_back [OF n(1), of queen_db] failed_insert_rolled_back [OF n(2), of queen_db]
    failed_insert_rolled_back [OF n(3), of failing_db] a b c n
  show ?thesis
    unfolding q by simp
qed

text \<open>
  The 400 of an add handler does not always mean that nothing was written. When the
  commit succeeds and the identity that the request gave is not a string, reading the
  object back for the log raises inside the \<^verbatim>\<open>try\<close> block: the handler answers 400 and
  the row stays in the table.
\<close>

lemma row_survives_reload_error:
  "add_artist empty_db (json_request (PDict seven)) =
     (Inr (PDict [(''error'', PStr ''operator does not exist'')], 400),
      empty_db\<lparr>tables := (\<lambda>t. [])(''artists'' :=
        [[(''id'', PStr ''7''), (''name'', PStr ''Seven''), (''genres'', PNone), (''popularity'', PNone),
          (''followers'', PNone), (''uri'', PNone)]])\<rparr>)"
proof -
  have d: "decimal 7 = ''7''"
    by code_simp
  show ?thesis
    by (simp add: add_on_json add_artist_try_dict seven_def artist_row_def store_eval empty_db_def d)
qed

section \<open>Reading one record\<close>

lemma get_one_handler_found:
  assumes "fault s = None" "pk_of mdl = (\<lambda>r. [attr r ''id''])"
  shows "get_one_handler s mdl to_dict nf i =
    (case find (\<lambda>r. attr r ''id'' = PStr i) (tables s (tablename mdl)) of
       None \<Rightarrow> (PDict [(''error'', PStr nf)], 404)
     | Some r \<Rightarrow> (to_dict r, 200))"
  using assms by (simp add: get_one_handler_def query_get_def error_response_def split: option.splits)





section \<open>Reading all records\<close>

lemma get_all_handler_ok:
  "fault s = None \<Longrightarrow>
   get_all_handler s mdl to_dict = (PList (map to_dict (scan s (tables s (tablename mdl)))), 200)"
  by (simp add: get_all_handler_def query_all_def)




lemma scans_all_examples: "scans_all queen_db" "scans_all empty_db" "scans_all newest_first_db" "scans_all failing_db"
  by (simp_all add: scans_all_def queen_db_def empty_db_def newest_first_db_def failing_db_def)



section \<open>Writing and reading back\<close>

lemma find_snoc:
  "find P (xs @ [y]) = (case find P xs of None \<Rightarrow> (if P y then Some y else None) | Some x \<Rightarrow> Some x)"
  by (induction xs) auto

lemma to_dict_row:
  "Artist_to_dict (artist_row kvs) = PDict (artist_row kvs)"
  "Album_to_dict (album_row kvs rd) = PDict (album_row kvs rd)"
  "Track_to_dict (track_row kvs) = PDict (track_row kvs)"
  by (simp_all add: Artist_to_dict_def Album_to_dict_def Track_to_dict_def artist_row_def album_row_def track_row_def)

lemma get_new_row:
  assumes "fault s = None" "pk_of mdl = (\<lambda>r. [attr r ''id''])" "attr r ''id'' = PStr i"
    "PStr i \<notin> set (ids s (tablename mdl))"
  shows "get_one_handler (s\<lparr>tables := (tables s)(tablename mdl := tables s (tablename mdl) @ [r]), session := []\<rparr>)
           mdl to_dict nf i = (to_dict r, 200)"
proof -
  have "find (\<lambda>r. attr r ''id'' = PStr i) (tables s (tablename mdl)) = None"
    using assms(4) by (force simp: find_None_iff ids_def)
  then show ?thesis
    using assms(1-3) by (simp add: get_one_handler_found find_snoc)
qed

text \<open>Writing a row that the engine keeps as it is, with a string for its identity.\<close>

lemma write_kept_row:
  assumes f: "fault s = None" and c: "session s = []" and pk: "pk_of mdl = (\<lambda>r. [attr r ''id''])"
    and a: "adapt_row (cast s) (columns mdl) r = Inr r"
    and n: "find (null_violation r) (columns mdl) = None"
    and k: "find (fk_violation (tables s) r) (columns mdl) = None"
    and i: "attr r ''id'' = PStr i" and u: "PStr i \<notin> set (ids s (tablename mdl))"
  shows "add_and_commit s (mdl, r) msg =
    (Inr (PDict [(''message'', PStr msg)], 201),
     s\<lparr>tables := (tables s)(tablename mdl := tables s (tablename mdl) @ [r]), session := []\<rparr>)"
proof -
  from u have u': "[PStr i] \<notin> (\<lambda>r. [attr r ''id'']) ` set (tables s (tablename mdl))"
    by (auto simp: ids_def)
  have ins: "insert_row (cast s) (tables s) (mdl, r) =
      Inr ((tables s)(tablename mdl := tables s (tablename mdl) @ [r]))"
    using a n k i u' by (simp add: insert_row_def pk)
  have fnd: "find (\<lambda>x. [attr x ''id''] = [PStr i]) (tables s (tablename mdl) @ [r]) \<noteq> None"
    using i by (auto simp: find_None_iff)
  then obtain x where x: "find (\<lambda>x. [attr x ''id''] = [PStr i]) (tables s (tablename mdl) @ [r]) = Some x"
    by blast
  show ?thesis
    using f c ins i x
    by (simp add: add_and_commit_def session_commit_def session_add_def refresh_def pk message_response_def)
qed

lemma kept:
  "keeps_typed s \<Longrightarrow> is_column_value t v \<Longrightarrow> cast s t v = Inr v"
  by (simp add: keeps_typed_def)

lemma add_artist_valid:
  assumes v: "valid_payload (columns Artist) (PDict kvs)" and i: "attr kvs ''id'' = PStr i"
    and u: "PStr i \<notin> set (ids s ''artists'')"
    and f: "fault s = None" and c: "session s = []" and e: "keeps_typed s"
  shows "add_artist s (json_request (PDict kvs)) =
    (Inr (PDict [(''message'', PStr ''Artist added successfully'')], 201),
     s\<lparr>tables := (tables s)(''artists'' := tables s ''artists'' @ [artist_row kvs]), session := []\<rparr>)"
proof -
  from v have t: "is_column_value String (attr kvs ''id'')" "attr kvs ''id'' \<noteq> PNone"
    "is_column_value String (attr kvs ''name'')" "attr kvs ''name'' \<noteq> PNone"
    "is_column_value String (attr kvs ''genres'')" "is_column_value Integer (attr kvs ''popularity'')"
    "is_column_value Integer (attr kvs ''followers'')" "is_column_value String (attr kvs ''uri'')"
    by (simp_all add: valid_payload_def Artist_def Column_def valid_field_def)
  from t(2) have n: "kvs \<noteq> []" by auto
  have p: "pk_of Artist = (\<lambda>r. [attr r ''id''])"
    by (simp add: fun_eq_iff)
  have a: "adapt_row (cast s) (columns Artist) (artist_row kvs) = Inr (artist_row kvs)"
    using t by (simp add: Artist_def Column_def artist_row_def kept [OF e])
  have nv: "find (null_violation (artist_row kvs)) (columns Artist) = None"
    using t by (simp add: Artist_def Column_def artist_row_def null_violation_def)
  have fk: "find (fk_violation (tables s) (artist_row kvs)) (columns Artist) = None"
    by (simp add: Artist_def Column_def fk_violation_def)
  from write_kept_row [OF f c p a nv fk, of i "''Artist added successfully''"] i u n
  show ?thesis
    by (simp add: add_on_json add_artist_try_dict except_rollback_def)
qed

lemma add_album_valid:
  assumes v: "valid_payload (filter (\<lambda>c. col_name c \<noteq> ''release_date'') (columns Album)) (PDict kvs)"
    and i: "attr kvs ''id'' = PStr i" and u: "PStr i \<notin> set (ids s ''albums'')"
    and p: "attr kvs ''artist_id'' \<in> set (ids s ''artists'')"
    and f: "fault s = None" and c: "session s = []" and e: "keeps_typed s"
  shows "add_album s (json_request (PDict kvs)) =
    (Inr (PDict [(''message'', PStr ''Album added successfully'')], 201),
     s\<lparr>tables := (tables s)(''albums'' := tables s ''albums'' @
         [album_row kvs (release_date_of (attr kvs ''release_date''))]), session := []\<rparr>)"
proof -
  let ?r = "album_row kvs (release_date_of (attr kvs ''release_date''))"
  from v have t: "is_column_value String (attr kvs ''id'')" "attr kvs ''id'' \<noteq> PNone"
    "is_column_value String (attr kvs ''artist_id'')" "attr kvs ''artist_id'' \<noteq> PNone"
    "is_column_value String (attr kvs ''name'')" "attr kvs ''name'' \<noteq> PNone"
    "is_column_value String (attr kvs ''album_type'')"
    "is_column_value String (attr kvs ''release_date_precision'')"
    "is_column_value Integer (attr kvs ''total_tracks'')" "is_column_value String (attr kvs ''uri'')"
    by (simp_all add: valid_payload_def Album_def Column_def valid_field_def)
  from t(2) have n: "kvs \<noteq> []" by auto
  have pk: "pk_of Album = (\<lambda>r. [attr r ''id''])"
    by (simp add: fun_eq_iff)
  have d: "is_column_value Date (release_date_of w)" for w
    by (simp add: release_date_of_def of_date_option_def split: sum.splits option.splits)
  have a: "adapt_row (cast s) (columns Album) ?r = Inr ?r"
    using t d by (simp add: Album_def Column_def album_row_def kept [OF e])
  have nv: "find (null_violation ?r) (columns Album) = None"
    using t by (simp add: Album_def Column_def album_row_def null_violation_def)
  from p have p': "attr kvs ''artist_id'' \<in> (\<lambda>r. attr r ''id'') ` set (tables s ''artists'')"
    by (simp add: ids_def)
  have fk: "find (fk_violation (tables s) ?r) (columns Album) = None"
    using p' by (simp add: Album_def Column_def fk_violation_def album_row_def)
  from write_kept_row [OF f c pk a nv fk, of i "''Album added successfully''"] i u n
  show ?thesis
    by (simp add: add_on_json add_album_try_dict except_rollback_def)
qed

lemma example_cast_keeps: "is_column_value t v \<Longrightarrow> example_cast t v = Inr v"
  by (cases "(t, v)" rule: example_cast.cases) auto

lemma keeps_typed_examples: "keeps_typed queen_db" "keeps_typed empty_db"
  by (simp_all add: keeps_typed_def queen_db_def empty_db_def example_cast_keeps)

lemma count_one:
  "distinct (map f xs) \<Longrightarrow> v \<in> f ` set xs \<Longrightarrow> length (filter (\<lambda>x. f x = v) xs) = 1"
proof (induction xs)
  case Nil
  then show ?case by simp
next
  case (Cons x xs)
  show ?case
  proof (cases "f x = v")
    case True
    with Cons.prems have "filter (\<lambda>x. f x = v) xs = []"
      by (auto simp: filter_empty_conv image_iff)
    with True show ?thesis by simp
  next
    case False
    with Cons show ?thesis by auto
  qed
qed

lemma count_mset:
  "mset xs = mset ys \<Longrightarrow> length (filter P xs) = length (filter P ys)"
  by (metis mset_filter size_mset)

lemma unique_ids_append:
  assumes "unique_ids s" "attr r ''id'' \<notin> (\<lambda>r. attr r ''id'') ` set (tables s t)"
  shows "unique_ids (s\<lparr>tables := (tables s)(t := tables s t @ [r]), session := []\<rparr>)"
  using assms by (auto simp: unique_ids_def ids_def)

lemma add_request_cases:
  "(\<exists>e. add_artist s rq = (Inl e, s) \<and> add_album s rq = (Inl e, s) \<and> add_track s rq = (Inl e, s))
 \<or> (\<exists>data. add_artist s rq = add_artist s (json_request data)
          \<and> add_album s rq = add_album s (json_request data)
          \<and> add_track s rq = add_track s (json_request data))"
  by (cases "get_json rq") (auto simp: add_artist_def add_album_def add_track_def)

text \<open>
  Claim C1. For a valid artist payload whose id no stored artist has, with the store
  reachable, no write pending and an engine that stores values of the declared types as
  they are, add answers 201 and get-by-id with that id then answers 200 with exactly the
  recognised fields of the payload (a field that the payload lacks reads as null).
\<close>

theorem add_then_get_artist:
  assumes "valid_payload (columns Artist) data" "py_get data ''id'' = Inr (PStr i)"
    "PStr i \<notin> set (ids s ''artists'')" "fault s = None" "session s = []" "keeps_typed s"
  shows "fst (add_artist s (json_request data)) =
           Inr (PDict [(''message'', PStr ''Artist added successfully'')], 201)
       \<and> (\<exists>kw. py_get_each data [''id'', ''name'', ''genres'', ''popularity'', ''followers'', ''uri''] = Inr kw
              \<and> get_artist (snd (add_artist s (json_request data))) i = (PDict kw, 200))"
proof -
  from assms(1) obtain kvs where d: "data = PDict kvs"
    by (cases data) (simp_all add: valid_payload_def)
  from assms(2) d have i: "attr kvs ''id'' = PStr i"
    by (simp add: attr_def)
  have k: "py_get_each data [''id'', ''name'', ''genres'', ''popularity'', ''followers'', ''uri''] = Inr (artist_row kvs)"
    unfolding d py_get_each_dict artist_row_def ..
  have a: "add_artist s (json_request data) =
    (Inr (PDict [(''message'', PStr ''Artist added successfully'')], 201),
     s\<lparr>tables := (tables s)(''artists'' := tables s ''artists'' @ [artist_row kvs]), session := []\<rparr>)"
    using add_artist_valid [of kvs i s] assms d i by simp
  have "get_artist (snd (add_artist s (json_request data))) i = (PDict (artist_row kvs), 200)"
    unfolding a get_artist_def
    using get_new_row [of s Artist "artist_row kvs" i Artist_to_dict] assms(3,4) i
    by (simp add: fun_eq_iff to_dict_row)
  with a k show ?thesis by simp
qed

theorem add_then_get_artist_witness:
  "valid_payload (columns Artist) (PDict bowie_fields) \<and> py_get (PDict bowie_fields) ''id'' = Inr (PStr ''a2'')
 \<and> PStr ''a2'' \<notin> set (ids queen_db ''artists'') \<and> fault queen_db = None \<and> session queen_db = []
 \<and> keeps_typed queen_db
 \<and> fst (add_artist queen_db (json_request (PDict bowie_fields))) =
      Inr (PDict [(''message'', PStr ''Artist added successfully'')], 201)
 \<and> get_artist (snd (add_artist queen_db (json_request (PDict bowie_fields)))) ''a2'' =
     (PDict [(''id'', PStr ''a2''), (''name'', PStr ''David Bowie''), (''genres'', PNone),
             (''popularity'', PNone), (''followers'', PNone), (''uri'', PNone)], 200)"
proof -
  have v: "valid_payload (columns Artist) (PDict bowie_fields)"
    by (simp add: valid_payload_def valid_field_def Artist_def Column_def bowie_fields_def)
  have g: "py_get (PDict bowie_fields) ''id'' = Inr (PStr ''a2'')"
    by (simp add: bowie_fields_def)
  have u: "PStr ''a2'' \<notin> set (ids queen_db ''artists'')"
    by (simp add: ids_def queen_db_def queen_row_def)
  have q: "fault queen_db = None" "session queen_db = []"
    by (simp_all add: queen_db_def)
  have k: "py_get_each (PDict bowie_fields) [''id'', ''name'', ''genres'', ''popularity'', ''followers'', ''uri'']
      = Inr [(''id'', PStr ''a2''), (''name'', PStr ''David Bowie''), (''genres'', PNone),
             (''popularity'', PNone), (''followers'', PNone), (''uri'', PNone)]"
    by (simp add: bowie_fields_def)
  from add_then_get_artist [OF v g u q keeps_typed_examples(1)] v g u q k keeps_typed_examples(1)
  show ?thesis
    by auto
qed

text \<open>
  Claim C7. Every add handler, on every request, keeps the identities of each table
  distinct. An add of an artist whose id, as the engine stores it, a stored artist has
  already answers 400 and leaves the store as it was, and get-all then shows exactly one
  artist with that id.
\<close>

theorem identity_uniqueness_preserved:
  assumes "unique_ids s" "session s = []"
  shows "unique_ids (snd (add_artist s rq)) \<and> unique_ids (snd (add_album s rq))
       \<and> unique_ids (snd (add_track s rq))
       \<and> (py_get data ''id'' = Inr v \<and> cast s String v = Inr w \<and> w \<in> set (ids s ''artists'') \<longrightarrow>
            (\<exists>m. fst (add_artist s (json_request data)) = Inr (PDict [(''error'', PStr m)], 400))
            \<and> snd (add_artist s (json_request data)) = s
            \<and> (fault s = None \<and> scans_all s \<longrightarrow>
                 (\<exists>ds. get_artists (snd (add_artist s (json_request data))) = (PList ds, 200)
                     \<and> length (filter (\<lambda>d. py_get d ''id'' = Inr w) ds) = 1)))"
proof -
  have a: "unique_ids (snd (add_artist s (json_request x)))" for x
    using add_artist_outcome [OF assms(2), of x] assms(1)
    by (elim disjE exE conjE) (simp_all add: unique_ids_append)
  have b: "unique_ids (snd (add_album s (json_request x)))" for x
    using add_album_outcome [OF assms(2), of x] assms(1)
    by (elim disjE exE conjE) (simp_all add: unique_ids_append)
  have c: "unique_ids (snd (add_track s (json_request x)))" for x
    using add_track_outcome [OF assms(2), of x] assms(1)
    by (elim disjE exE conjE) (simp_all add: unique_ids_append)
  have r: "unique_ids (snd (add_artist s rq)) \<and> unique_ids (snd (add_album s rq))
       \<and> unique_ids (snd (add_track s rq))"
    using add_request_cases [of s rq] a b c assms(1)
    by (elim disjE exE conjE) simp_all
  have d: "(\<exists>m. fst (add_artist s (json_request data)) = Inr (PDict [(''error'', PStr m)], 400))
            \<and> snd (add_artist s (json_request data)) = s
            \<and> (fault s = None \<and> scans_all s \<longrightarrow>
                 (\<exists>ds. get_artists (snd (add_artist s (json_request data))) = (PList ds, 200)
                     \<and> length (filter (\<lambda>d. py_get d ''id'' = Inr w) ds) = 1))"
    if g: "py_get data ''id'' = Inr v" and cw: "cast s String v = Inr w" and m: "w \<in> set (ids s ''artists'')"
  proof -
    have no: False
      if k: "data = PDict kvs" and ad: "adapt_row (cast s) (columns Artist) (artist_row kvs) = Inr vals"
        and nw: "attr vals ''id'' \<notin> (\<lambda>r. attr r ''id'') ` set (tables s ''artists'')" for kvs vals
    proof -
      from g k have "attr kvs ''id'' = v" by (simp add: attr_def)
      with stored_id [of Artist "cast s" "artist_row kvs" vals] ad cw have "attr vals ''id'' = w"
        by simp
      with nw m show False by (simp add: ids_def)
    qed
    from add_artist_outcome [OF assms(2), of data] no
    obtain e where e: "add_artist s (json_request data) = (Inr (PDict [(''error'', PStr e)], 400), s)"
      by blast
    have p: "py_get (Artist_to_dict r) ''id'' = Inr (attr r ''id'')" for r
      by (simp add: Artist_to_dict_def)
    from assms(1) m have one: "length (filter (\<lambda>r. attr r ''id'' = w) (tables s ''artists'')) = 1"
      by (intro count_one) (simp_all add: unique_ids_def ids_def)
    have "length (filter (\<lambda>d. py_get d ''id'' = Inr w) (map Artist_to_dict (scan s (tables s ''artists'')))) = 1"
      if "scans_all s"
    proof -
      from that have "mset (scan s (tables s ''artists'')) = mset (tables s ''artists'')"
        by (simp add: scans_all_def)
      from count_mset [OF this, of "\<lambda>r. attr r ''id'' = w"] one show ?thesis
        by (simp add: filter_map comp_def p)
    qed
    with e show ?thesis
      by (simp add: get_artists_def get_all_handler_ok)
  qed
  from r d show ?thesis by blast
qed

theorem identity_uniqueness_preserved_witness:
  "unique_ids queen_db \<and> session queen_db = [] \<and> py_get queen ''id'' = Inr (PStr ''a1'')
 \<and> cast queen_db String (PStr ''a1'') = Inr (PStr ''a1'')
 \<and> PStr ''a1'' \<in> set (ids queen_db ''artists'') \<and> fault queen_db = None \<and> scans_all queen_db
 \<and> fst (add_artist queen_db (json_request queen)) =
      Inr (PDict [(''error'', PStr ''duplicate key value violates unique constraint'')], 400)
 \<and> snd (add_artist queen_db (json_request queen)) = queen_db
 \<and> get_artists (snd (add_artist queen_db (json_request queen))) = (PList [Artist_to_dict queen_row], 200)
 \<and> length (filter (\<lambda>d. py_get d ''id'' = Inr (PStr ''a1'')) [Artist_to_dict queen_row]) = 1
 \<and> unique_ids (snd (add_artist queen_db (json_request (PDict bowie_fields))))
 \<and> ids (snd (add_artist queen_db (json_request (PDict bowie_fields)))) ''artists'' = [PStr ''a1'', PStr ''a2'']
 \<and> unique_ids (snd (add_album queen_db no_body))"
proof -
  have u: "unique_ids queen_db"
    by (simp add: unique_ids_def ids_def queen_db_def)
  have q: "fault queen_db = None" "session queen_db = []" "scan queen_db (tables queen_db ''artists'') = [queen_row]"
    "cast queen_db String (PStr ''a1'') = Inr (PStr ''a1'')"
    by (simp_all add: queen_db_def)
  have g: "py_get queen ''id'' = Inr (PStr ''a1'')"
    by (simp add: queen_def queen_row_def)
  have m: "PStr ''a1'' \<in> set (ids queen_db ''artists'')"
    by (simp add: ids_def queen_db_def queen_row_def)
  have l: "length (filter (\<lambda>d. py_get d ''id'' = Inr (PStr ''a1'')) [Artist_to_dict queen_row]) = 1"
    by (simp add: Artist_to_dict_def queen_row_def)
  have e: "fst (add_artist queen_db (json_request queen)) =
      Inr (PDict [(''error'', PStr ''duplicate key value violates unique constraint'')], 400)"
    by (simp add: add_on_json add_artist_try_dict queen_def queen_row_def artist_row_def store_eval queen_db_def)
  have b: "ids (snd (add_artist queen_db (json_request (PDict bowie_fields)))) ''artists'' = [PStr ''a1'', PStr ''a2'']"
    by (simp add: add_on_json add_artist_try_dict bowie_fields_def artist_row_def store_eval
        queen_db_def queen_row_def ids_def)
  from identity_uniqueness_preserved [OF u q(2), of "json_request queen" queen "PStr ''a1''" "PStr ''a1''"]
    identity_uniqueness_preserved [OF u q(2), of "json_request (PDict bowie_fields)"]
    identity_uniqueness_preserved [OF u q(2), of no_body]
    u q g m l b e scans_all_examples(1)
  show ?thesis
    by (simp add: get_artists_def get_all_handler_ok)
qed

text \<open>
  A value of another type than its column's is stored as the engine casts it: the
  popularity \<^verbatim>\<open>'90'\<close> is read back as the number 90.
\<close>

lemma converted_value_stored:
  "fst (add_artist empty_db (json_request (PDict ninety))) =
     Inr (PDict [(''message'', PStr ''Artist added successfully'')], 201)
 \<and> get_artist (snd (add_artist empty_db (json_request (PDict ninety)))) ''a9'' =
     (PDict [(''id'', PStr ''a9''), (''name'', PStr ''Ninety''), (''genres'', PNone),
             (''popularity'', PInt 90), (''followers'', PNone), (''uri'', PNone)], 200)"
proof -
  have n: "num ''90'' = 90"
    by (simp add: num_def digit_val_def)
  have d: "is_digit CHR ''9''" "is_digit CHR ''0''"
    by (simp_all add: is_digit_def)
  have a: "add_artist empty_db (json_request (PDict ninety)) =
     (Inr (PDict [(''message'', PStr ''Artist added successfully'')], 201),
      empty_db\<lparr>tables := (\<lambda>t. [])(''artists'' :=
        [[(''id'', PStr ''a9''), (''name'', PStr ''Ninety''), (''genres'', PNone), (''popularity'', PInt 90),
          (''followers'', PNone), (''uri'', PNone)]])\<rparr>)"
    by (simp add: add_on_json add_artist_try_dict ninety_def artist_row_def store_eval empty_db_def n d)
  show ?thesis
    unfolding a
    by (simp add: get_artist_def get_one_handler_def query_get_def empty_db_def Artist_to_dict_def)
qed

lemma release_date_dropped:
  assumes "length rd \<notin> {4, 7, 10} \<or> (\<exists>e. parse_release_date_try (PStr rd) = Inl e)"
  shows "parse_release_date (PStr rd) = Inr None"
  using assms by (auto simp: parse_release_date_def parse_release_date_try_def)

text \<open>
  Claim C8. For an album payload that is valid apart from its release date, with a new
  id and the id of a stored artist, a release date string of a wrong length or one that
  does not parse does not fail the request: add answers 201 and the album read back has
  no release date.
\<close>

theorem unparseable_release_date_dropped:
  assumes "valid_payload (filter (\<lambda>c. col_name c \<noteq> ''release_date'') (columns Album)) (PDict kvs)"
    and "attr kvs ''id'' = PStr i" and "PStr i \<notin> set (ids s ''albums'')"
    and "attr kvs ''artist_id'' \<in> set (ids s ''artists'')"
    and "attr kvs ''release_date'' = PStr rd"
    and "length rd \<notin> {4, 7, 10} \<or> (\<exists>e. parse_release_date_try (PStr rd) = Inl e)"
    and "fault s = None" and "session s = []" and "keeps_typed s"
  shows "fst (add_album s (json_request (PDict kvs))) =
           Inr (PDict [(''message'', PStr ''Album added successfully'')], 201)
       \<and> get_album (snd (add_album s (json_request (PDict kvs)))) i = (PDict (album_row kvs PNone), 200)
       \<and> attr (album_row kvs PNone) ''release_date'' = PNone"
proof -
  have r: "release_date_of (attr kvs ''release_date'') = PNone"
    using release_date_dropped [OF assms(6)] assms(5)
    by (simp add: release_date_of_def of_date_option_def)
  have a: "add_album s (json_request (PDict kvs)) =
    (Inr (PDict [(''message'', PStr ''Album added successfully'')], 201),
     s\<lparr>tables := (tables s)(''albums'' := tables s ''albums'' @ [album_row kvs PNone]), session := []\<rparr>)"
    using add_album_valid [OF assms(1,2,3,4,7,8,9)] r by simp
  have "get_album (snd (add_album s (json_request (PDict kvs)))) i = (PDict (album_row kvs PNone), 200)"
    unfolding a get_album_def
    using get_new_row [of s Album "album_row kvs PNone" i Album_to_dict] assms(2,3,7)
    by (simp add: fun_eq_iff to_dict_row)
  with a show ?thesis by (simp add: album_row_def)
qed

theorem unparseable_release_date_dropped_witness:
  "valid_payload (filter (\<lambda>c. col_name c \<noteq> ''release_date'') (columns Album)) (PDict (jazz_fields ''2020-05-1''))
 \<and> attr (jazz_fields ''2020-05-1'') ''id'' = PStr ''b1'' \<and> PStr ''b1'' \<notin> set (ids queen_db ''albums'')
 \<and> attr (jazz_fields ''2020-05-1'') ''artist_id'' \<in> set (ids queen_db ''artists'')
 \<and> attr (jazz_fields ''2020-05-1'') ''release_date'' = PStr ''2020-05-1''
 \<and> length ''2020-05-1'' \<notin> {4, 7, 10::nat}
 \<and> fault queen_db = None \<and> session queen_db = [] \<and> keeps_typed queen_db
 \<and> fst (add_album queen_db (json_request (PDict (jazz_fields ''2020-05-1'')))) =
      Inr (PDict [(''message'', PStr ''Album added successfully'')], 201)
 \<and> get_album (snd (add_album queen_db (json_request (PDict (jazz_fields ''2020-05-1''))))) ''b1'' =
      (PDict [(''id'', PStr ''b1''), (''artist_id'', PStr ''a1''), (''name'', PStr ''Jazz''),
              (''album_type'', PStr ''album''), (''release_date'', PNone),
              (''release_date_precision'', PStr ''day''), (''total_tracks'', PInt 13), (''uri'', PNone)], 200)
 \<and> length '''' \<notin> {4, 7, 10::nat}
 \<and> fst (add_album queen_db (json_request (PDict (jazz_fields '''')))) =
      Inr (PDict [(''message'', PStr ''Album added successfully'')], 201)
 \<and> attr (album_row (jazz_fields '''') PNone) ''release_date'' = PNone
 \<and> parse_release_date_try (PStr ''2020-13-01'') = Inl (Exn ValueError ''time data does not match format'')
 \<and> fst (add_album queen_db (json_request (PDict (jazz_fields ''2020-13-01'')))) =
      Inr (PDict [(''message'', PStr ''Album added successfully'')], 201)
 \<and> get_album (snd (add_album queen_db (json_request (PDict (jazz_fields ''2020-13-01''))))) ''b1'' =
      (PDict (album_row (jazz_fields ''2020-13-01'') PNone), 200)"
proof -
  have v: "valid_payload (filter (\<lambda>c. col_name c \<noteq> ''release_date'') (columns Album)) (PDict (jazz_fields rd))" for rd
    by (simp add: valid_payload_def valid_field_def Album_def Column_def jazz_fields_def)
  have j: "attr (jazz_fields rd) ''id'' = PStr ''b1''" "attr (jazz_fields rd) ''release_date'' = PStr rd"
    "attr (jazz_fields rd) ''artist_id'' \<in> set (ids queen_db ''artists'')" for rd
    by (simp_all add: jazz_fields_def ids_def queen_db_def queen_row_def)
  have q: "PStr ''b1'' \<notin> set (ids queen_db ''albums'')" "fault queen_db = None" "session queen_db = []"
    by (simp_all add: ids_def queen_db_def)
  have l: "length ''2020-05-1'' \<notin> {4, 7, 10::nat}" "length '''' \<notin> {4, 7, 10::nat}"
    by simp_all
  have p: "parse_release_date_try (PStr ''2020-13-01'') = Inl (Exn ValueError ''time data does not match format'')"
    by code_simp
  have r: "album_row (jazz_fields ''2020-05-1'') PNone =
      [(''id'', PStr ''b1''), (''artist_id'', PStr ''a1''), (''name'', PStr ''Jazz''),
       (''album_type'', PStr ''album''), (''release_date'', PNone),
       (''release_date_precision'', PStr ''day''), (''total_tracks'', PInt 13), (''uri'', PNone)]"
    by (simp add: album_row_def jazz_fields_def)
  note k = keeps_typed_examples(1)
  from unparseable_release_date_dropped [OF v j(1) q(1) j(3) j(2) _ q(2,3) k, of "''2020-05-1''"]
    unparseable_release_date_dropped [OF v j(1) q(1) j(3) j(2) _ q(2,3) k, of "''''"]
    unparseable_release_date_dropped [OF v j(1) q(1) j(3) j(2) _ q(2,3) k, of "''2020-13-01''"]
    v j q l p k
  show ?thesis
    unfolding r [symmetric] by simp
qed

section \<open>The date parser by length\<close>

lemma compile_formats:
  "compile_format ''%Y'' = Inr [DirY]"
  "compile_format ''%Y-%m'' = Inr [DirY, Lit CHR ''-'', Dirm]"
  "compile_format ''%Y-%m-%d'' = Inr [DirY, Lit CHR ''-'', Dirm, Lit CHR ''-'', Dird]"
  by simp_all

lemma is_digit_cases:
  "is_digit c \<Longrightarrow> c = CHR ''0'' \<or> c = CHR ''1'' \<or> c = CHR ''2'' \<or> c = CHR ''3'' \<or> c = CHR ''4''
     \<or> c = CHR ''5'' \<or> c = CHR ''6'' \<or> c = CHR ''7'' \<or> c = CHR ''8'' \<or> c = CHR ''9''"
  by (simp add: is_digit_def)

lemma digit_val_le: "is_digit c \<Longrightarrow> digit_val c \<le> 9"
  by (drule is_digit_cases) (auto simp: digit_val_def)

lemma nonzero_digit_iff: "nonzero_digit c \<longleftrightarrow> is_digit c \<and> 1 \<le> digit_val c"
  by (auto simp: nonzero_digit_def is_digit_def digit_val_def)

lemma num1: "num [a] = digit_val a"
  by (simp add: num_def)
lemma num2: "num [a, b] = 10 * digit_val a + digit_val b"
  by (simp add: num_def)
lemma num4: "num [a, b, c, d] = 1000 * digit_val a + 100 * digit_val b + 10 * digit_val c + digit_val d"
  by (simp add: num_def)

lemma num4_le: "is_digit a \<Longrightarrow> is_digit b \<Longrightarrow> is_digit c \<Longrightarrow> is_digit d \<Longrightarrow> num [a, b, c, d] \<le> 9999"
  using digit_val_le [of a] digit_val_le [of b] digit_val_le [of c] digit_val_le [of d]
  by (simp add: num4)

lemma digit_val_simps [simp]:
  "digit_val CHR ''0'' = 0" "digit_val CHR ''1'' = 1" "digit_val CHR ''2'' = 2" "digit_val CHR ''3'' = 3"
  "digit_val CHR ''4'' = 4" "digit_val CHR ''5'' = 5" "digit_val CHR ''6'' = 6" "digit_val CHR ''7'' = 7"
  "digit_val CHR ''8'' = 8" "digit_val CHR ''9'' = 9"
  by (simp_all add: digit_val_def)

lemma month2_iff: "month2 e f \<longleftrightarrow> is_digit e \<and> is_digit f \<and> 1 \<le> num [e, f] \<and> num [e, f] \<le> 12"
proof
  assume "month2 e f"
  then show "is_digit e \<and> is_digit f \<and> 1 \<le> num [e, f] \<and> num [e, f] \<le> 12"
    unfolding month2_def nonzero_digit_def is_digit_def num2
    by (elim disjE conjE; simp; elim disjE; simp)
next
  assume a: "is_digit e \<and> is_digit f \<and> 1 \<le> num [e, f] \<and> num [e, f] \<le> 12"
  then have "is_digit e" "is_digit f" by simp_all
  from is_digit_cases [OF this(1)] is_digit_cases [OF this(2)] a show "month2 e f"
    unfolding num2
    by (elim disjE; simp add: month2_def nonzero_digit_def)
qed

lemma day2_iff: "day2 g j \<longleftrightarrow> is_digit g \<and> is_digit j \<and> 1 \<le> num [g, j] \<and> num [g, j] \<le> 31"
proof
  assume "day2 g j"
  then show "is_digit g \<and> is_digit j \<and> 1 \<le> num [g, j] \<and> num [g, j] \<le> 31"
    unfolding day2_def nonzero_digit_def num2
    by (elim disjE conjE; simp add: is_digit_def digit_val_le; (elim disjE; simp)?)
next
  assume a: "is_digit g \<and> is_digit j \<and> 1 \<le> num [g, j] \<and> num [g, j] \<le> 31"
  then have "is_digit g" "is_digit j" by simp_all
  from is_digit_cases [OF this(1)] is_digit_cases [OF this(2)] a show "day2 g j"
    unfolding num2
    by (elim disjE; simp add: day2_def nonzero_digit_def is_digit_def)
qed

lemma rx_format_Y:
  "rx_format [DirY] (y0, m0, d0) [a, b, c, d] =
     (if is_digit a \<and> is_digit b \<and> is_digit c \<and> is_digit d then [((num [a, b, c, d], m0, d0), [])] else [])"
  by simp

lemma parse_4:
  "parse_release_date (PStr [a, b, c, d]) =
     Inr (if is_digit a \<and> is_digit b \<and> is_digit c \<and> is_digit d \<and> 1 \<le> num [a, b, c, d]
          then Some \<lparr>year = num [a, b, c, d], month = 1, day = 1\<rparr> else None)"
  using num4_le [of a b c d]
  by (simp add: parse_release_date_def parse_release_date_try_def strptime_def compile_formats rx_format_Y
      datetime_date_def valid_date_def days_in_month_def del: rx_format.simps rx_Y.simps compile_format.simps)

lemma rx_m_two:
  "rx_m (e # f # r) =
     (if month2 e f then [(num [e, f], r)] else []) @ (if nonzero_digit e then [(num [e], f # r)] else [])"
  by (auto simp: rx_m_def rx2_def rx1_def month2_def)

lemma rx_d_two:
  "rx_d (g # j # r) =
     (if day2 g j then [(num [g, j], r)] else [])
     @ (if nonzero_digit g then [(num [g], j # r)] else [])
     @ (if g = CHR '' '' \<and> nonzero_digit j then [(num [j], r)] else [])"
  by (auto simp: rx_d_def rx2_def rx1_def rx_space_digit_def day2_def nonzero_digit_def is_digit_def)

lemma rx_lit_Cons: "rx_lit c (a # r) = (if a = c then [r] else [])"
  by (simp add: rx_lit_def)

lemma rx_Y_four:
  "rx_Y (a # b # c # d # r) =
     (if is_digit a \<and> is_digit b \<and> is_digit c \<and> is_digit d then [(num [a, b, c, d], r)] else [])"
  by simp

lemma month2_not_dash: "month2 e f \<Longrightarrow> f \<noteq> CHR ''-''"
  by (auto simp: month2_def nonzero_digit_def)

lemma days_in_month_bounds: "1 \<le> days_in_month y m" "days_in_month y m \<le> 31"
  by (simp_all add: days_in_month_def)

lemma parse_7:
  "parse_release_date (PStr [a, b, c, d, h, e, f]) =
     Inr (if is_digit a \<and> is_digit b \<and> is_digit c \<and> is_digit d \<and> h = CHR ''-''
             \<and> is_digit e \<and> is_digit f
             \<and> 1 \<le> num [a, b, c, d] \<and> 1 \<le> num [e, f] \<and> num [e, f] \<le> 12
          then Some \<lparr>year = num [a, b, c, d], month = num [e, f], day = 1\<rparr> else None)"
proof -
  have r: "rx_format [DirY, Lit CHR ''-'', Dirm] (y0, m0, d0) [a, b, c, d, h, e, f] =
     (if is_digit a \<and> is_digit b \<and> is_digit c \<and> is_digit d \<and> h = CHR ''-'' then
        (if month2 e f then [((num [a, b, c, d], num [e, f], d0), [])] else [])
        @ (if nonzero_digit e then [((num [a, b, c, d], num [e], d0), [f])] else [])
      else [])" for y0 m0 d0
    by (simp add: rx_m_two rx_lit_Cons del: rx_Y.simps add: rx_Y_four)
  have m: "parse_release_date (PStr [a, b, c, d, h, e, f]) =
     Inr (if is_digit a \<and> is_digit b \<and> is_digit c \<and> is_digit d \<and> h = CHR ''-'' \<and> month2 e f
             \<and> 1 \<le> num [a, b, c, d]
          then Some \<lparr>year = num [a, b, c, d], month = num [e, f], day = 1\<rparr> else None)"
    using num4_le [of a b c d] days_in_month_bounds [of "num [a, b, c, d]" "num [e, f]"] month2_iff [of e f]
    by (simp add: parse_release_date_def parse_release_date_try_def strptime_def compile_formats r
        datetime_date_def valid_date_def
        del: rx_format.simps rx_Y.simps compile_format.simps)
  show ?thesis
    unfolding m using month2_iff [of e f] by auto
qed

lemma parse_10_raw:
  "parse_release_date (PStr [a, b, c, d, h, e, f, k, g, j]) =
     Inr (if (is_digit a \<and> is_digit b \<and> is_digit c \<and> is_digit d \<and> h = CHR ''-'')
            \<and> (month2 e f \<and> k = CHR ''-'')
            \<and> (day2 g j \<and> valid_date (num [a, b, c, d]) (num [e, f]) (num [g, j])
               \<or> (g = CHR '' '' \<and> nonzero_digit j) \<and> valid_date (num [a, b, c, d]) (num [e, f]) (num [j]))
          then Some \<lparr>year = num [a, b, c, d], month = num [e, f],
                      day = (if g = CHR '' '' then num [j] else num [g, j])\<rparr>
          else None)"
proof -
  let ?y = "num [a, b, c, d]" and ?m = "num [e, f]"
  define P where "P \<longleftrightarrow> is_digit a \<and> is_digit b \<and> is_digit c \<and> is_digit d \<and> h = CHR ''-''"
  define M where "M \<longleftrightarrow> month2 e f \<and> k = CHR ''-''"
  define N where "N \<longleftrightarrow> nonzero_digit e \<and> f = CHR ''-''"
  define D where "D \<longleftrightarrow> day2 g j"
  define G where "G \<longleftrightarrow> nonzero_digit g"
  define S where "S \<longleftrightarrow> g = CHR '' '' \<and> nonzero_digit j"
  define tl2 where "tl2 =
             (if day2 k g then [((?y, num [e], num [k, g]), [j])] else [])
             @ (if nonzero_digit k then [((?y, num [e], num [k]), [g, j])] else [])
             @ (if k = CHR '' '' \<and> nonzero_digit g then [((?y, num [e], num [g]), [j])] else [])"
  have r: "rx_format [DirY, Lit CHR ''-'', Dirm, Lit CHR ''-'', Dird] (y0, m0, d0) [a, b, c, d, h, e, f, k, g, j] =
     (if P then
        (if M then
           (if D then [((?y, ?m, num [g, j]), [])] else [])
           @ (if G then [((?y, ?m, num [g]), [j])] else [])
           @ (if S then [((?y, ?m, num [j]), [])] else [])
         else [])
        @ (if N then tl2 else [])
      else [])" for y0 m0 d0
    unfolding P_def M_def N_def D_def G_def S_def tl2_def
    by (simp add: rx_m_two rx_d_two rx_lit_Cons del: rx_Y.simps add: rx_Y_four)
  have MN: "M \<Longrightarrow> \<not> N"
    using month2_not_dash [of e f] by (auto simp: M_def N_def)
  have Dg: "D \<Longrightarrow> g \<noteq> CHR '' ''" and Gg: "G \<Longrightarrow> g \<noteq> CHR '' ''" and Sg: "S \<Longrightarrow> g = CHR '' ''"
    by (auto simp: D_def G_def S_def day2_def nonzero_digit_def)
  have t: "\<exists>e'. (case tl2 of [] \<Rightarrow> Inl x | ((y, m, d), rest) # u \<Rightarrow>
              if rest \<noteq> [] then Inl (z rest) else datetime_date y m d) = Inl e'" for x z
    by (auto simp: tl2_def)
  note defs = parse_release_date_def parse_release_date_try_def strptime_def compile_formats r datetime_date_def
  have "parse_release_date (PStr [a, b, c, d, h, e, f, k, g, j]) =
     Inr (if P \<and> M \<and> (D \<and> valid_date ?y ?m (num [g, j]) \<or> S \<and> valid_date ?y ?m (num [j]))
          then Some \<lparr>year = ?y, month = ?m, day = (if g = CHR '' '' then num [j] else num [g, j])\<rparr>
          else None)"
  proof (cases P)
    case False
    then show ?thesis
      by (simp add: defs del: rx_format.simps rx_Y.simps compile_format.simps)
  next
    case P: True
    show ?thesis
    proof (cases M)
      case False
      from t [of "Exn ValueError ''time data does not match format''"
            "\<lambda>rest. Exn ValueError (''unconverted data remains: '' @ rest)"]
      obtain e' where e': "(case tl2 of [] \<Rightarrow> Inl (Exn ValueError ''time data does not match format'')
           | ((y, m, d), rest) # u \<Rightarrow>
              if rest \<noteq> [] then Inl (Exn ValueError (''unconverted data remains: '' @ rest))
              else datetime_date y m d) = Inl e'"
        by blast
      have "parse_release_date (PStr [a, b, c, d, h, e, f, k, g, j]) = Inr None"
        using P False
        by (cases N) (simp_all add: defs e' del: rx_format.simps rx_Y.simps compile_format.simps)
      with False show ?thesis by simp
    next
      case M: True
      note NN = MN [OF M]
      show ?thesis
      proof (cases D)
        case True
        with P M NN Dg [OF True] Sg show ?thesis
          by (auto simp: defs simp del: rx_format.simps rx_Y.simps compile_format.simps)
      next
        case D: False
        show ?thesis
        proof (cases G)
          case True
          with P M NN D Gg [OF True] Sg show ?thesis
            by (auto simp: defs simp del: rx_format.simps rx_Y.simps compile_format.simps)
        next
          case G: False
          show ?thesis
          proof (cases S)
            case True
            have L: "rx_format [DirY, Lit CHR ''-'', Dirm, Lit CHR ''-'', Dird] (y0, m0, d0)
                [a, b, c, d, h, e, f, k, g, j] = [((?y, ?m, num [j]), [])]" for y0 m0 d0
              using P M NN D G True by (simp add: r del: rx_format.simps)
            have "parse_release_date (PStr [a, b, c, d, h, e, f, k, g, j]) =
                Inr (if valid_date ?y ?m (num [j]) then Some \<lparr>year = ?y, month = ?m, day = num [j]\<rparr> else None)"
              by (simp add: parse_release_date_def parse_release_date_try_def strptime_def compile_formats L
                  datetime_date_def del: rx_format.simps rx_Y.simps compile_format.simps)
            with P M D True Sg [OF True] show ?thesis
              by simp
          next
            case False
            with P M NN D G show ?thesis
              by (simp add: defs del: rx_format.simps rx_Y.simps compile_format.simps)
          qed
        qed
      qed
    qed
  qed
  then show ?thesis
    unfolding P_def M_def D_def S_def .
qed

lemma parse_10:
  "parse_release_date (PStr [a, b, c, d, h, e, f, k, g, j]) =
     Inr (if is_digit a \<and> is_digit b \<and> is_digit c \<and> is_digit d \<and> h = CHR ''-''
             \<and> is_digit e \<and> is_digit f \<and> k = CHR ''-''
             \<and> (is_digit g \<or> g = CHR '' '') \<and> is_digit j
             \<and> valid_date (num [a, b, c, d]) (num [e, f]) (if g = CHR '' '' then num [j] else num [g, j])
          then Some \<lparr>year = num [a, b, c, d], month = num [e, f],
                      day = (if g = CHR '' '' then num [j] else num [g, j])\<rparr>
          else None)"
proof -
  let ?y = "num [a, b, c, d]" and ?m = "num [e, f]"
  have d: "day2 g j \<and> valid_date ?y ?m (num [g, j]) \<longleftrightarrow> is_digit g \<and> is_digit j \<and> valid_date ?y ?m (num [g, j])"
    using day2_iff [of g j] days_in_month_bounds [of ?y ?m] by (auto simp: valid_date_def)
  have n: "nonzero_digit j \<and> valid_date ?y ?m (num [j]) \<longleftrightarrow> is_digit j \<and> valid_date ?y ?m (num [j])"
    by (auto simp: nonzero_digit_iff valid_date_def num1)
  have v: "valid_date ?y ?m dd \<Longrightarrow> month2 e f \<longleftrightarrow> is_digit e \<and> is_digit f" for dd
    using month2_iff [of e f] by (auto simp: valid_date_def)
  have g: "g = CHR '' '' \<Longrightarrow> \<not> is_digit g"
    by (simp add: is_digit_def)
  have "(is_digit a \<and> is_digit b \<and> is_digit c \<and> is_digit d \<and> h = CHR ''-'')
            \<and> (month2 e f \<and> k = CHR ''-'')
            \<and> (day2 g j \<and> valid_date ?y ?m (num [g, j])
               \<or> (g = CHR '' '' \<and> nonzero_digit j) \<and> valid_date ?y ?m (num [j]))
     \<longleftrightarrow> is_digit a \<and> is_digit b \<and> is_digit c \<and> is_digit d \<and> h = CHR ''-''
             \<and> is_digit e \<and> is_digit f \<and> k = CHR ''-''
             \<and> (is_digit g \<or> g = CHR '' '') \<and> is_digit j
             \<and> valid_date ?y ?m (if g = CHR '' '' then num [j] else num [g, j])"
  proof (cases "g = CHR '' ''")
    case True
    then have "\<not> day2 g j" by (simp add: day2_def)
    with True n v [of "num [j]"] g show ?thesis by auto
  next
    case False
    with d v [of "num [g, j]"] show ?thesis by auto
  qed
  then show ?thesis
    unfolding parse_10_raw by simp
qed

lemma parse_other_length:
  "length s \<notin> {4, 7, 10} \<Longrightarrow> parse_release_date (PStr s) = Inr None"
  by (simp add: parse_release_date_def parse_release_date_try_def)

text \<open>
  Claim C2. The result of the date parser on every string, by length. A string of
  length 4 that is a year from 0001 to 9999 gives the first of January of that year; one
  of length 7 that is such a year, a dash and a month from 01 to 12 gives the first day
  of that month; one of length 10 that is a year, a dash, a month, a dash and a day (two
  digits, or a space and one digit) which make a date of the calendar gives that date.
  Every other string of these lengths, and every string of another length, gives no
  value.
\<close>

theorem date_parser_by_length:
  "parse_release_date (PStr [a, b, c, d]) =
     Inr (if is_digit a \<and> is_digit b \<and> is_digit c \<and> is_digit d \<and> 1 \<le> num [a, b, c, d]
          then Some \<lparr>year = num [a, b, c, d], month = 1, day = 1\<rparr> else None)
 \<and> parse_release_date (PStr [a, b, c, d, h, e, f]) =
     Inr (if is_digit a \<and> is_digit b \<and> is_digit c \<and> is_digit d \<and> h = CHR ''-''
             \<and> is_digit e \<and> is_digit f
             \<and> 1 \<le> num [a, b, c, d] \<and> 1 \<le> num [e, f] \<and> num [e, f] \<le> 12
          then Some \<lparr>year = num [a, b, c, d], month = num [e, f], day = 1\<rparr> else None)
 \<and> parse_release_date (PStr [a, b, c, d, h, e, f, k, g, j]) =
     Inr (if is_digit a \<and> is_digit b \<and> is_digit c \<and> is_digit d \<and> h = CHR ''-''
             \<and> is_digit e \<and> is_digit f \<and> k = CHR ''-''
             \<and> (is_digit g \<or> g = CHR '' '') \<and> is_digit j
             \<and> valid_date (num [a, b, c, d]) (num [e, f]) (if g = CHR '' '' then num [j] else num [g, j])
          then Some \<lparr>year = num [a, b, c, d], month = num [e, f],
                      day = (if g = CHR '' '' then num [j] else num [g, j])\<rparr>
          else None)
 \<and> (length s \<notin> {4, 7, 10} \<longrightarrow> parse_release_date (PStr s) = Inr None)"
  by (intro conjI impI parse_4 parse_7 parse_10 parse_other_length)

theorem date_parser_by_length_witness:
  "parse_release_date (PStr ''2020'') = Inr (Some \<lparr>year = 2020, month = 1, day = 1\<rparr>)
 \<and> parse_release_date (PStr ''2020-05'') = Inr (Some \<lparr>year = 2020, month = 5, day = 1\<rparr>)
 \<and> parse_release_date (PStr ''2020-05-17'') = Inr (Some \<lparr>year = 2020, month = 5, day = 17\<rparr>)
 \<and> length '''' \<notin> {4, 7, 10::nat} \<and> parse_release_date (PStr '''') = Inr None
 \<and> length ''2020-05-1'' \<notin> {4, 7, 10::nat} \<and> parse_release_date (PStr ''2020-05-1'') = Inr None"
proof -
  have n: "num ''2020'' = 2020" "num ''05'' = 5" "num ''17'' = 17"
    by (simp_all add: num_def)
  have v: "valid_date 2020 5 17"
    by (simp add: valid_date_def days_in_month_def)
  have i: "is_digit CHR ''0''" "is_digit CHR ''1''" "is_digit CHR ''2''" "is_digit CHR ''5''" "is_digit CHR ''7''"
    by (simp_all add: is_digit_def)
  from date_parser_by_length [of "CHR ''2''" "CHR ''0''" "CHR ''2''" "CHR ''0''" "CHR ''-''" "CHR ''0''" "CHR ''5''"
      "CHR ''-''" "CHR ''1''" "CHR ''7''" "''''"]
    date_parser_by_length [of _ _ _ _ _ _ _ _ _ _ "''2020-05-1''"]
  show ?thesis
    by (simp add: n v i)
qed

end
